theory Spec2Isabelle
  imports Complex_Main
begin

section \<open>JavaScript values and the platform operations the dashboard relies on\<close>

text \<open>
  A record of a result collection maps column names to scalars. Reading a key that the
  record lacks gives \<open>JUndefined\<close>, unless the key is a name that every object inherits
  from \<^verbatim>\<open>Object.prototype\<close>: then it gives the inherited property, \<open>JInherited\<close> with
  that name, which is a function, or under \<^verbatim>\<open>__proto__\<close> the prototype object itself.
  A number is a finite double, modelled by the rational it denotes; comparing two of them
  is then exact. Negative zero has no counterpart here: \<open>JNum 0\<close> is the positive zero.
\<close>

datatype jsval = JUndefined | JNull | JBool bool | JNum rat | JStr string | JInherited string

text \<open>The result of a numeric coercion, which may also be \<^verbatim>\<open>NaN\<close> or infinite.\<close>

datatype jsnum = NaN | NegInf | Fin rat | PosInf

text \<open>Truthiness, as \<^verbatim>\<open>value ? a : b\<close> and \<^verbatim>\<open>!value\<close> test it.\<close>

fun ToBoolean :: "jsval \<Rightarrow> bool" where
  "ToBoolean JUndefined = False"
| "ToBoolean JNull = False"
| "ToBoolean (JBool b) = b"
| "ToBoolean (JNum q) = (q \<noteq> 0)"
| "ToBoolean (JStr s) = (s \<noteq> [])"
| "ToBoolean (JInherited n) = True"

text \<open>
  Coercion to a number. How the platform reads a string as a number is a parameter,
  \<open>str2num\<close>, of everything that coerces. A function and the prototype object are
  coerced through their string forms (the function's source text, \<^verbatim>\<open>[object Object]\<close>),
  which are not numbers.
\<close>

fun ToNumber :: "(string \<Rightarrow> jsnum) \<Rightarrow> jsval \<Rightarrow> jsnum" where
  "ToNumber str2num JUndefined = NaN"
| "ToNumber str2num JNull = Fin 0"
| "ToNumber str2num (JBool b) = Fin (if b then 1 else 0)"
| "ToNumber str2num (JNum q) = Fin q"
| "ToNumber str2num (JStr s) = str2num s"
| "ToNumber str2num (JInherited n) = NaN"

text \<open>\<^verbatim>\<open>x <= y\<close> on numbers: false as soon as one side is \<^verbatim>\<open>NaN\<close>.\<close>

fun num_le :: "jsnum \<Rightarrow> jsnum \<Rightarrow> bool" where
  "num_le NaN y = False"
| "num_le x NaN = False"
| "num_le NegInf y = True"
| "num_le x PosInf = True"
| "num_le (Fin a) (Fin b) = (a \<le> b)"
| "num_le (Fin a) NegInf = False"
| "num_le PosInf y = False"

text \<open>\<^verbatim>\<open>value <= n\<close> for a numeric literal \<open>n\<close>: the left side is coerced to a number.\<close>

definition js_le :: "(string \<Rightarrow> jsnum) \<Rightarrow> jsval \<Rightarrow> rat \<Rightarrow> bool" where
  "js_le str2num v n = num_le (ToNumber str2num v) (Fin n)"

text \<open>
  \<^verbatim>\<open>x / d\<close> for a positive finite divisor \<open>d\<close>. The quotient of two finite numbers is
  taken exactly here, where the platform takes the double nearest to it. For the divisor 83
  and a dividend below \<open>2\<^sup>5\<^sup>2\<close> (about \<open>4.5 \<times> 10\<^sup>1\<^sup>5\<close>) in magnitude, the two round to
  the same whole number; from there on they may differ by one. What is proved below of an
  amount divided by the rate is therefore stated for amounts of at most \<open>10\<^sup>1\<^sup>5\<close>.
\<close>

fun num_div :: "jsnum \<Rightarrow> rat \<Rightarrow> jsnum" where
  "num_div NaN d = NaN"
| "num_div NegInf d = NegInf"
| "num_div PosInf d = PosInf"
| "num_div (Fin q) d = Fin (q / d)"

subsection \<open>Strings\<close>

definition toLowerChar :: "char \<Rightarrow> char" where
  "toLowerChar c =
     (case map_of (zip ''ABCDEFGHIJKLMNOPQRSTUVWXYZ'' ''abcdefghijklmnopqrstuvwxyz'') c of
        Some l \<Rightarrow> l
      | None \<Rightarrow> c)"

text \<open>\<^verbatim>\<open>s.toLowerCase()\<close>: the letters A to Z are mapped, every other character is kept.\<close>

definition toLowerCase :: "string \<Rightarrow> string" where
  "toLowerCase s = map toLowerChar s"

definition startsWith :: "string \<Rightarrow> string \<Rightarrow> bool" where
  "startsWith s sub = (take (length sub) s = sub)"

text \<open>\<^verbatim>\<open>s.includes(sub)\<close>: \<open>sub\<close> occurs in \<open>s\<close> as a contiguous run.\<close>

fun js_includes :: "string \<Rightarrow> string \<Rightarrow> bool" where
  "js_includes [] sub = (sub = [])"
| "js_includes (c # cs) sub = (startsWith (c # cs) sub \<or> js_includes cs sub)"

subsection \<open>Currency formatting by the platform\<close>

text \<open>
  The two formatters the dashboard builds:
  \<^verbatim>\<open>new Intl.NumberFormat("en-US", {style: "currency", currency: "USD",
      minimumFractionDigits: 0, maximumFractionDigits: 0})\<close> and the same with
  \<^verbatim>\<open>"en-IN"\<close> and \<^verbatim>\<open>"INR"\<close>. With no fraction digits the number is rounded to
  a whole number, a half away from zero; the digits are grouped by threes (en-US) or by
  three and then twos (en-IN), after the sign and the currency symbol. \<^verbatim>\<open>format\<close>
  coerces its argument to a number first; the functions here take the coerced number.
  All digits of the whole number are printed, as the platform does below \<open>2\<^sup>5\<^sup>3\<close>; above,
  it prints the shortest digits that identify the double and fills up with zeros.
\<close>

datatype number_format = en_US_USD | en_IN_INR

definition roundHalfExpand :: "rat \<Rightarrow> nat" where
  "roundHalfExpand q = nat \<lfloor>\<bar>q\<bar> + 1 / 2\<rfloor>"

definition digit_char :: "nat \<Rightarrow> char" where
  "digit_char d = ''0123456789'' ! d"

text \<open>The decimal digits of a natural number, as a template literal prints it.\<close>

function decimal :: "nat \<Rightarrow> string" where
  "decimal n =
     (if n < 10 then [digit_char n] else decimal (n div 10) @ [digit_char (n mod 10)])"
  by pat_completeness auto
termination
  by (relation "measure (\<lambda>n. n)") auto

declare decimal.simps [simp del]

text \<open>Whether a separator follows the digit that has \<open>p\<close> digits to its right.\<close>

fun group_after :: "number_format \<Rightarrow> nat \<Rightarrow> bool" where
  "group_after en_US_USD p = (0 < p \<and> p mod 3 = 0)"
| "group_after en_IN_INR p = (3 \<le> p \<and> p mod 2 = 1)"

definition grouped :: "number_format \<Rightarrow> string \<Rightarrow> string" where
  "grouped fmt ds =
     concat (map (\<lambda>(d, p). d # (if group_after fmt p then '','' else []))
       (zip ds (rev [0..<length ds])))"

text \<open>The rupee sign and the infinity sign, in UTF-8.\<close>

definition rupee :: string where
  "rupee = [CHR 0xE2, CHR 0x82, CHR 0xB9]"

definition infinity_sign :: string where
  "infinity_sign = [CHR 0xE2, CHR 0x88, CHR 0x9E]"

fun currency_symbol :: "number_format \<Rightarrow> string" where
  "currency_symbol en_US_USD = ''$''"
| "currency_symbol en_IN_INR = rupee"

fun NumberFormat_format :: "number_format \<Rightarrow> jsnum \<Rightarrow> string" where
  "NumberFormat_format fmt NaN = currency_symbol fmt @ ''NaN''"
| "NumberFormat_format fmt PosInf = currency_symbol fmt @ infinity_sign"
| "NumberFormat_format fmt NegInf = ''-'' @ currency_symbol fmt @ infinity_sign"
| "NumberFormat_format fmt (Fin q) =
     (if q < 0 then ''-'' else []) @ currency_symbol fmt
       @ grouped fmt (decimal (roundHalfExpand q))"

section \<open>The dashboard's currency formatter and generic table (CrepidDashboard)\<close>

datatype currency_unit = INR | USD

definition usdRate :: rat where
  "usdRate = 83"

text \<open>
  \<^verbatim>\<open>formatCurrency\<close> closes over the \<^verbatim>\<open>currency\<close> state; here it is the
  argument \<open>cur\<close>.
  \<^verbatim>\<open>amount == null\<close> holds of \<^verbatim>\<open>null\<close> and \<^verbatim>\<open>undefined\<close> only.
\<close>

definition formatCurrency :: "(string \<Rightarrow> jsnum) \<Rightarrow> currency_unit \<Rightarrow> jsval \<Rightarrow> string" where
  "formatCurrency str2num cur amount =
     (if amount = JNull \<or> amount = JUndefined then []
      else if cur = USD then
        (let converted = num_div (ToNumber str2num amount) usdRate
         in NumberFormat_format en_US_USD converted)
      else NumberFormat_format en_IN_INR (ToNumber str2num amount))"

text \<open>
  A record of a collection, in the order \<^verbatim>\<open>Object.keys\<close> lists its keys (integer-like
  keys first, then the others as they were inserted); an object has each key once.
\<close>

type_synonym item = "(string \<times> jsval) list"

definition Object_keys :: "item \<Rightarrow> string list" where
  "Object_keys it = map fst it"

text \<open>The names of the properties of \<^verbatim>\<open>Object.prototype\<close>, which every record inherits.\<close>

definition Object_prototype_names :: "string list" where
  "Object_prototype_names =
     [''constructor'', ''hasOwnProperty'', ''isPrototypeOf'', ''propertyIsEnumerable'',
      ''toLocaleString'', ''toString'', ''valueOf'', ''__proto__'',
      ''__defineGetter__'', ''__defineSetter__'', ''__lookupGetter__'', ''__lookupSetter__'']"

text \<open>
  \<^verbatim>\<open>item[col]\<close>: the record's own value under the key when it has one; otherwise
  the inherited property when \<open>col\<close> names one, and \<^verbatim>\<open>undefined\<close> when it does not.
\<close>

definition item_get :: "item \<Rightarrow> string \<Rightarrow> jsval" where
  "item_get it col =
     (case map_of it col of
        Some v \<Rightarrow> v
      | None \<Rightarrow> if col \<in> set Object_prototype_names then JInherited col else JUndefined)"

text \<open>One \<^verbatim>\<open><td>\<close>: the two style properties the code may set, and the child it shows.\<close>

record td =
  backgroundColor :: "string option"
  color :: "string option"
  children :: jsval

record section_table =
  title :: string
  headers :: "string list"
  body :: "td list list"

definition is_currency_column :: "string \<Rightarrow> bool" where
  "is_currency_column col =
     (js_includes (toLowerCase col) ''cost''
      \<or> js_includes (toLowerCase col) ''gain''
      \<or> js_includes (toLowerCase col) ''value''
      \<or> js_includes (toLowerCase col) ''salary'')"

text \<open>The body of \<^verbatim>\<open>columns.map((col) => ...)\<close> for one record.\<close>

definition render_td ::
  "(string \<Rightarrow> jsnum) \<Rightarrow> (jsval \<Rightarrow> string) option \<Rightarrow> item \<Rightarrow> string \<Rightarrow> td" where
  "render_td str2num formatCurrency_prop it col =
     (let value = item_get it col;
          value =
            (case formatCurrency_prop of
               Some format \<Rightarrow>
                 if is_currency_column col
                 then (if ToBoolean value then JStr (format value) else value)
                 else value
             | None \<Rightarrow> value)
      in if toLowerCase col = ''roi'' then
           \<lparr>backgroundColor =
              Some (if js_le str2num value 7 then ''#F87171''
                    else if js_le str2num value 14 then ''#FBBF24''
                    else ''#34D399''),
            color = Some ''#000'',
            children = value\<rparr>
         else \<lparr>backgroundColor = None, color = None, children = value\<rparr>)"

text \<open>
  \<^verbatim>\<open>SectionTable\<close>. \<open>None\<close> as \<open>items\<close> is an absent collection (\<^verbatim>\<open>undefined\<close>);
  the result \<open>None\<close> is the component returning \<^verbatim>\<open>null\<close>, which renders nothing.
\<close>

definition SectionTable ::
  "(string \<Rightarrow> jsnum) \<Rightarrow> string \<Rightarrow> item list option \<Rightarrow> (jsval \<Rightarrow> string) option
     \<Rightarrow> section_table option" where
  "SectionTable str2num ttl items formatCurrency_prop =
     (case items of
        None \<Rightarrow> None
      | Some [] \<Rightarrow> None
      | Some (first # rest) \<Rightarrow>
          (let columns = Object_keys first
           in Some \<lparr>title = ttl,
                    headers = columns,
                    body = map (\<lambda>it. map (render_td str2num formatCurrency_prop it) columns)
                             (first # rest)\<rparr>))"

text \<open>A record cut down to the keys in \<open>cols\<close>.\<close>

definition restrict_keys :: "string list \<Rightarrow> item \<Rightarrow> item" where
  "restrict_keys cols it = filter (\<lambda>kv. fst kv \<in> set cols) it"

text \<open>
  What React shows for a child: nothing for these values. A function as a child shows
  nothing either; the prototype object is no valid child, and React refuses to render it.
\<close>

fun blank :: "jsval \<Rightarrow> bool" where
  "blank JUndefined = True"
| "blank JNull = True"
| "blank (JBool b) = True"
| "blank (JStr s) = (s = [])"
| "blank (JNum q) = False"
| "blank (JInherited n) = (n \<noteq> ''__proto__'')"

text \<open>The result document, with the collections the dashboard reads.\<close>

record hiring_result =
  NewHires :: jsval
  employees :: "item list option"

record dashboard_result =
  activities_with_metrics :: "item list option"
  rebalance :: "item list option"
  training :: "item list option"
  appraisal :: "item list option"
  risks :: "item list option"
  hiring :: "hiring_result option"

text \<open>\<^verbatim>\<open>data.hiring?.employees\<close>\<close>

definition hiring_employees :: "dashboard_result \<Rightarrow> item list option" where
  "hiring_employees d = (case hiring d of None \<Rightarrow> None | Some h \<Rightarrow> employees h)"

text \<open>The six table sections, in the order the dashboard renders them.\<close>

definition tables_section ::
  "(string \<Rightarrow> jsnum) \<Rightarrow> currency_unit \<Rightarrow> dashboard_result \<Rightarrow> section_table option list" where
  "tables_section str2num cur d =
     [SectionTable str2num ''Activities with Metrics'' (activities_with_metrics d)
        (Some (formatCurrency str2num cur)),
      SectionTable str2num ''Rebalance Suggestions'' (rebalance d) None,
      SectionTable str2num ''Hiring'' (hiring_employees d)
        (Some (formatCurrency str2num cur)),
      SectionTable str2num ''Training Recommendations'' (training d)
        (Some (formatCurrency str2num cur)),
      SectionTable str2num ''Appraisal Suggestions'' (appraisal d) None,
      SectionTable str2num ''Risk Flags'' (risks d) None]"

section \<open>Uploading the three files\<close>

text \<open>
  A selected file, by its name. A file input with nothing selected gives
  \<^verbatim>\<open>undefined\<close> (or the state's initial \<^verbatim>\<open>null\<close>), here \<open>None\<close>.
\<close>

datatype js_file = File string

record request =
  url :: string
  http_method :: string
  form_data :: "(string \<times> js_file) list"

datatype js_error = Error string | TypeError string | SyntaxError string

text \<open>
  What \<^verbatim>\<open>await fetch(...)\<close> and then \<^verbatim>\<open>await res.json()\<close> can do: the fetch is
  rejected, or it gives a response with a status, whose body parses to a result document or
  makes \<^verbatim>\<open>json()\<close> reject.
\<close>

datatype response_json = Parsed dashboard_result | Unparsable js_error

datatype fetch_outcome = Rejected js_error | Response nat response_json

text \<open>\<^verbatim>\<open>res.ok\<close>\<close>

definition ok :: "nat \<Rightarrow> bool" where
  "ok status = (200 \<le> status \<and> status \<le> 299)"

text \<open>What the handlers do to the world around them, in the order it happens.\<close>

datatype log_arg = Text string | Thrown js_error

record browser =
  alerts :: "string list"
  console_error :: "log_arg list list"
  requests :: "request list"

definition backend_url :: string where
  "backend_url = ''https://crepid-deployable.onrender.com/api/upload-csv''"

subsection \<open>The dashboard's own upload handler (CrepidDashboard.handleUpload)\<close>

record dashboard_state =
  rosterFile :: "js_file option"
  activitiesFile :: "js_file option"
  skillsFile :: "js_file option"
  loading :: bool
  data :: "dashboard_result option"
  currency :: currency_unit

definition dashboard_request :: "js_file \<Rightarrow> js_file \<Rightarrow> js_file \<Rightarrow> request" where
  "dashboard_request r a k =
     \<lparr>url = backend_url, http_method = ''POST'',
      form_data = [(''roster'', r), (''activities'', a), (''skills'', k)]\<rparr>"

text \<open>The \<^verbatim>\<open>try\<close> block after the fetch has settled: \<open>Inl\<close> is what it throws.\<close>

definition dashboard_try :: "fetch_outcome \<Rightarrow> js_error + dashboard_result" where
  "dashboard_try outcome =
     (case outcome of
        Rejected e \<Rightarrow> Inl e
      | Response status json \<Rightarrow>
          if \<not> ok status
          then Inl (Error (''Server responded with status '' @ decimal status))
          else (case json of Unparsable e \<Rightarrow> Inl e | Parsed result \<Rightarrow> Inr result))"

text \<open>
  The handler is asynchronous: it runs up to \<^verbatim>\<open>await fetch(...)\<close>, and goes on when the
  fetch has settled. \<open>handleUpload_begin\<close> is the first part; it gives the request it is
  waiting for, or \<open>None\<close> when it has returned. \<open>handleUpload_resume\<close> is the rest;
  its state setters act on the state as it is by then.
\<close>

definition handleUpload_begin ::
  "dashboard_state \<times> browser \<Rightarrow> (dashboard_state \<times> browser) \<times> request option" where
  "handleUpload_begin sw =
     (case sw of (s, w) \<Rightarrow>
       (case (rosterFile s, activitiesFile s, skillsFile s) of
          (Some r, Some a, Some k) \<Rightarrow>
            (let req = dashboard_request r a k
             in ((s\<lparr>loading := True\<rparr>, w\<lparr>requests := requests w @ [req]\<rparr>), Some req))
        | _ \<Rightarrow> ((s, w\<lparr>alerts := alerts w @ [''Please select all three files!'']\<rparr>), None)))"

definition handleUpload_resume ::
  "fetch_outcome \<Rightarrow> dashboard_state \<times> browser \<Rightarrow> dashboard_state \<times> browser" where
  "handleUpload_resume outcome sw =
     (case sw of (s, w) \<Rightarrow>
       (case dashboard_try outcome of
          Inr result \<Rightarrow> (s\<lparr>data := Some result, loading := False\<rparr>, w)
        | Inl err \<Rightarrow>
            (s\<lparr>loading := False\<rparr>,
             w\<lparr>console_error := console_error w @ [[Text ''Upload failed:'', Thrown err]],
               alerts := alerts w @ [''Upload failed! Check console for details.'']\<rparr>)))"

text \<open>
  The whole handler, when nothing else happens while it waits; \<open>server\<close> says how the
  fetch of a request settles.
\<close>

definition handleUpload ::
  "(request \<Rightarrow> fetch_outcome) \<Rightarrow> dashboard_state \<times> browser \<Rightarrow> dashboard_state \<times> browser" where
  "handleUpload server sw =
     (case handleUpload_begin sw of
        (sw1, None) \<Rightarrow> sw1
      | (sw1, Some req) \<Rightarrow> handleUpload_resume (server req) sw1)"

subsection \<open>The upload client (lib/api uploadCSV, the variant posting to the deployed backend)\<close>

definition uploadCSV_request :: "js_file \<Rightarrow> js_file \<Rightarrow> js_file \<Rightarrow> request" where
  "uploadCSV_request rosterFile_arg activitiesFile_arg skillFile =
     \<lparr>url = backend_url, http_method = ''POST'',
      form_data = [(''roster'', rosterFile_arg), (''activities'', activitiesFile_arg),
                   (''skill_library'', skillFile)]\<rparr>"

definition uploadCSV_result :: "fetch_outcome \<Rightarrow> js_error + dashboard_result" where
  "uploadCSV_result outcome =
     (case outcome of
        Rejected e \<Rightarrow> Inl e
      | Response status json \<Rightarrow>
          if \<not> ok status then Inl (Error ''Failed to upload CSVs'')
          else (case json of Unparsable e \<Rightarrow> Inl e | Parsed result \<Rightarrow> Inr result))"

text \<open>The requests the call issues, and what it returns (\<open>Inr\<close>) or throws (\<open>Inl\<close>).\<close>

definition uploadCSV ::
  "(request \<Rightarrow> fetch_outcome) \<Rightarrow> js_file \<Rightarrow> js_file \<Rightarrow> js_file
     \<Rightarrow> request list \<times> (js_error + dashboard_result)" where
  "uploadCSV server rosterFile_arg activitiesFile_arg skillFile =
     (let req = uploadCSV_request rosterFile_arg activitiesFile_arg skillFile
      in ([req], uploadCSV_result (server req)))"

subsection \<open>The uploader form (CSVUploader.handleUpload) and the shared state (AppContext)\<close>

text \<open>\<^verbatim>\<open>e.target.<name>.files[0]\<close> for the three inputs of the form.\<close>

record upload_form =
  roster :: "js_file option"
  activities :: "js_file option"
  skill_library :: "js_file option"

text \<open>The uploader's own \<^verbatim>\<open>loading\<close> flag and the context's \<^verbatim>\<open>dashboardData\<close>.\<close>

record uploader_state =
  uploader_loading :: bool
  dashboardData :: "dashboard_result option"

definition AppProvider_initial :: "dashboard_result option" where
  "AppProvider_initial = None"

text \<open>
  The submit handler, in two parts as above: up to \<^verbatim>\<open>await uploadCSV(...)\<close>, whose
  request is issued at once, and from there on, given what the call returned or threw.
\<close>

definition CSVUploader_begin ::
  "upload_form \<Rightarrow> uploader_state \<times> browser
     \<Rightarrow> (uploader_state \<times> browser) \<times> request option" where
  "CSVUploader_begin e uw =
     (case uw of (u, w) \<Rightarrow>
       (case (roster e, activities e, skill_library e) of
          (Some r, Some a, Some k) \<Rightarrow>
            (let req = uploadCSV_request r a k
             in ((u\<lparr>uploader_loading := True\<rparr>, w\<lparr>requests := requests w @ [req]\<rparr>),
                 Some req))
        | _ \<Rightarrow> ((u, w\<lparr>alerts := alerts w @ [''All files required!'']\<rparr>), None)))"

definition CSVUploader_resume ::
  "js_error + dashboard_result \<Rightarrow> uploader_state \<times> browser \<Rightarrow> uploader_state \<times> browser" where
  "CSVUploader_resume called uw =
     (case uw of (u, w) \<Rightarrow>
       (case called of
          Inr d \<Rightarrow>
            (u\<lparr>dashboardData := Some d, uploader_loading := False\<rparr>,
             w\<lparr>alerts := alerts w @ [''CSV files uploaded and processed successfully!'']\<rparr>)
        | Inl err \<Rightarrow>
            (u\<lparr>uploader_loading := False\<rparr>,
             w\<lparr>console_error := console_error w @ [[Thrown err]],
               alerts := alerts w @ [''Error uploading files'']\<rparr>)))"

definition CSVUploader_handleUpload ::
  "(request \<Rightarrow> fetch_outcome) \<Rightarrow> upload_form \<Rightarrow> uploader_state \<times> browser
     \<Rightarrow> uploader_state \<times> browser" where
  "CSVUploader_handleUpload server e uw =
     (case CSVUploader_begin e uw of
        (uw1, None) \<Rightarrow> uw1
      | (uw1, Some req) \<Rightarrow> CSVUploader_resume (uploadCSV_result (server req)) uw1)"

text \<open>
  The three ways an upload fails: the fetch is rejected, the status is outside the success
  range, or the body does not parse.
\<close>

definition upload_failed :: "fetch_outcome \<Rightarrow> bool" where
  "upload_failed outcome =
     (case outcome of
        Rejected e \<Rightarrow> True
      | Response status json \<Rightarrow>
          (case json of Unparsable e \<Rightarrow> True | Parsed result \<Rightarrow> \<not> ok status))"

section \<open>The FAQ accordion (frontend/src/components/FAQSection.jsx)\<close>

text \<open>
  The component keeps one piece of state, \<^verbatim>\<open>openIndex\<close>, created by
  \<^verbatim>\<open>useState(null)\<close>: \<open>None\<close> is JavaScript's \<^verbatim>\<open>null\<close>, \<open>Some i\<close> the index
  of a card. The click handler of card \<open>index\<close> is \<^verbatim>\<open>toggleFAQ(index)\<close>.
\<close>

record faq =
  question :: string
  answer :: string

text \<open>What one card shows: its question, which chevron, and the answer when it is open.\<close>

record faq_card =
  card_question :: string
  chevron_up :: bool
  card_answer :: "string option"

definition openIndex_initial :: "nat option" where
  "openIndex_initial = None"

definition toggleFAQ :: "nat option \<Rightarrow> nat \<Rightarrow> nat option" where
  "toggleFAQ openIndex index = (if openIndex = Some index then None else Some index)"

text \<open>\<^verbatim>\<open>faqs.map((faq, index) => ...)\<close>; \<open>index\<close> is the index of the first card.\<close>

fun faq_cards :: "nat \<Rightarrow> faq list \<Rightarrow> nat option \<Rightarrow> faq_card list" where
  "faq_cards index [] openIndex = []"
| "faq_cards index (f # fs) openIndex =
     \<lparr>card_question = question f,
      chevron_up = (openIndex = Some index),
      card_answer = (if openIndex = Some index then Some (answer f) else None)\<rparr>
     # faq_cards (Suc index) fs openIndex"

definition FAQSection :: "faq list \<Rightarrow> nat option \<Rightarrow> faq_card list" where
  "FAQSection faqs openIndex = faq_cards 0 faqs openIndex"

definition expanded :: "faq_card \<Rightarrow> bool" where
  "expanded c = (card_answer c \<noteq> None)"

text \<open>The state after a sequence of header clicks, starting from the initial state.\<close>

definition after_clicks :: "nat list \<Rightarrow> nat option" where
  "after_clicks clicks = foldl toggleFAQ openIndex_initial clicks"

section \<open>Example inputs\<close>

text \<open>
  A reading of strings as numbers for the examples, which never coerce a string: here no
  string reads as a number.
\<close>

definition no_numeric_strings :: "string \<Rightarrow> jsnum" where
  "no_numeric_strings s = NaN"

definition example_result :: dashboard_result where
  "example_result =
     \<lparr>activities_with_metrics = Some [[(''Activity'', JStr ''Audit''), (''NetValue'', JNum 8300)]],
      rebalance = None, training = Some [[(''Skill'', JStr ''SQL''), (''ROI'', JNum 8)]],
      appraisal = None, risks = Some [],
      hiring = Some \<lparr>NewHires = JNum 3, employees = Some []\<rparr>\<rparr>"

definition example_state :: dashboard_state where
  "example_state =
     \<lparr>rosterFile = Some (File ''roster.csv''), activitiesFile = Some (File ''activities.csv''),
      skillsFile = Some (File ''skills.csv''), loading = False, data = Some example_result,
      currency = INR\<rparr>"

definition example_form :: upload_form where
  "example_form =
     \<lparr>roster = Some (File ''roster.csv''), activities = Some (File ''activities.csv''),
      skill_library = Some (File ''skills.csv'')\<rparr>"

definition quiet_browser :: browser where
  "quiet_browser = \<lparr>alerts = [], console_error = [], requests = []\<rparr>"

section \<open>Properties of the generic table\<close>

lemma floor_rat_numeral:
  "\<lfloor>(numeral a :: rat) / numeral b\<rfloor> = numeral a div numeral b"
  using floor_divide_of_int_eq [of "numeral a" "numeral b", where ?'a = rat] by simp

lemma SectionTable_Cons:
  "SectionTable S ttl (Some (first # rest)) f =
     Some \<lparr>title = ttl, headers = Object_keys first,
           body = map (\<lambda>it. map (render_td S f it) (Object_keys first)) (first # rest)\<rparr>"
  by (simp add: SectionTable_def Let_def)

lemma SectionTable_Some_iff:
  "(SectionTable S ttl items f = Some t) =
     (\<exists>first rest. items = Some (first # rest) \<and>
        t = \<lparr>title = ttl, headers = Object_keys first,
           body = map (\<lambda>it. map (render_td S f it) (Object_keys first)) (first # rest)\<rparr>)"
  by (auto simp: SectionTable_def Let_def split: option.splits list.splits)

lemma SectionTable_cell:
  assumes "SectionTable S ttl (Some its) f = Some t"
    and "i < length its" and "j < length (headers t)"
  shows "body t ! i ! j = render_td S f (its ! i) (headers t ! j)"
proof -
  from assms(1) obtain first rest where its: "its = first # rest"
    and t: "t = \<lparr>title = ttl, headers = Object_keys first,
           body = map (\<lambda>it. map (render_td S f it) (Object_keys first)) (first # rest)\<rparr>"
    by (auto simp: SectionTable_Some_iff)
  from assms(2) its have "body t ! i = map (render_td S f (its ! i)) (Object_keys first)"
    by (simp add: t del: list.map)
  moreover from assms(3) have "j < length (Object_keys first)" by (simp add: t)
  ultimately show ?thesis by (simp add: t)
qed

lemma roi_not_currency:
  "toLowerCase col = ''roi'' \<Longrightarrow> \<not> is_currency_column col"
  by (simp add: is_currency_column_def startsWith_def)

lemma roi_not_inherited:
  "toLowerCase col = ''roi'' \<Longrightarrow> col \<notin> set Object_prototype_names"
proof
  assume "toLowerCase col = ''roi''" and "col \<in> set Object_prototype_names"
  then have "length col = 3" and "length col \<noteq> 3"
    by (auto simp: toLowerCase_def Object_prototype_names_def dest: arg_cong [where f = length])
  then show False by simp
qed

lemma render_td_roi:
  assumes "toLowerCase col = ''roi''"
  shows "render_td S f it col =
    \<lparr>backgroundColor =
        Some (if js_le S (item_get it col) 7 then ''#F87171''
              else if js_le S (item_get it col) 14 then ''#FBBF24''
              else ''#34D399''),
     color = Some ''#000'',
     children = item_get it col\<rparr>"
  using assms roi_not_currency [OF assms]
  by (simp add: render_td_def Let_def split: option.splits)

text \<open>
  Claim C2. In a table with a column whose name is \<^verbatim>\<open>roi\<close> up to case, the cell of a
  row whose value there is the number \<open>q\<close> gets the background \<^verbatim>\<open>#F87171\<close> (red) when
  \<open>q \<le> 7\<close>, \<^verbatim>\<open>#FBBF24\<close> (amber) when \<open>7 < q \<le> 14\<close>, and \<^verbatim>\<open>#34D399\<close> (green) when
  \<open>q > 14\<close>. The witness has the rows 7, 7.01, 8, 14, 14.01 and 15: red, amber, amber,
  amber, green, green.
\<close>

theorem roi_colour_by_value:
  assumes "SectionTable S ttl (Some its) f = Some t"
    and "i < length its" and "j < length (headers t)"
    and "toLowerCase (headers t ! j) = ''roi''"
    and "item_get (its ! i) (headers t ! j) = JNum q"
  shows "backgroundColor (body t ! i ! j) =
     Some (if q \<le> 7 then ''#F87171'' else if q \<le> 14 then ''#FBBF24'' else ''#34D399'')"
  using assms
  by (simp add: SectionTable_cell render_td_roi js_le_def)

text \<open>
  Claim C10. In a table with a column whose name is \<^verbatim>\<open>roi\<close> up to case, a row that
  lacks that key has the cell value \<^verbatim>\<open>undefined\<close>; both comparisons, with 7 and with
  14, are false for it, and the cell gets the green background \<^verbatim>\<open>#34D399\<close>, the one a
  value above 14 gets.
\<close>

theorem missing_roi_is_green:
  assumes "SectionTable S ttl (Some its) f = Some t"
    and "i < length its" and "j < length (headers t)"
    and "toLowerCase (headers t ! j) = ''roi''"
    and "headers t ! j \<notin> set (Object_keys (its ! i))"
  shows "children (body t ! i ! j) = JUndefined
    \<and> \<not> js_le S (children (body t ! i ! j)) 7
    \<and> \<not> js_le S (children (body t ! i ! j)) 14
    \<and> backgroundColor (body t ! i ! j) = Some ''#34D399''"
proof -
  from assms(5) have "map_of (its ! i) (headers t ! j) = None"
    by (simp add: Object_keys_def map_of_eq_None_iff)
  then have "item_get (its ! i) (headers t ! j) = JUndefined"
    using roi_not_inherited [OF assms(4)] by (simp add: item_get_def)
  with assms(1-4) show ?thesis
    by (simp add: SectionTable_cell render_td_roi js_le_def)
qed


lemma the_SectionTable:
  "SectionTable S ttl (Some (first # rest)) f
     = Some (the (SectionTable S ttl (Some (first # rest)) f))"
  by (simp add: SectionTable_Cons)

theorem roi_colour_by_value_witness:
  "map (\<lambda>i. backgroundColor (body (the (SectionTable no_numeric_strings ''Training Recommendations''
       (Some [[(''ROI'', JNum 7)], [(''ROI'', JNum (701 / 100))], [(''ROI'', JNum 8)],
         [(''ROI'', JNum 14)], [(''ROI'', JNum (1401 / 100))], [(''ROI'', JNum 15)]]) None)) ! i ! 0))
     [0, 1, 2, 3, 4, 5]
   = [Some ''#F87171'', Some ''#FBBF24'', Some ''#FBBF24'', Some ''#FBBF24'',
      Some ''#34D399'', Some ''#34D399'']"
proof -
  let ?its = "[[(''ROI'', JNum 7)], [(''ROI'', JNum (701 / 100))], [(''ROI'', JNum 8)],
         [(''ROI'', JNum 14)], [(''ROI'', JNum (1401 / 100))], [(''ROI'', JNum 15)]]"
  let ?t = "the (SectionTable no_numeric_strings ''Training Recommendations'' (Some ?its) None)"
  have t: "SectionTable no_numeric_strings ''Training Recommendations'' (Some ?its) None = Some ?t"
    by (rule the_SectionTable)
  have h: "headers ?t = [''ROI'']"
    by (simp add: SectionTable_Cons Object_keys_def)
  have j: "0 < length (headers ?t)" and l: "toLowerCase (headers ?t ! 0) = ''roi''"
    by (simp_all add: h toLowerCase_def toLowerChar_def)
  have "backgroundColor (body ?t ! 0 ! 0) = Some ''#F87171''"
    using roi_colour_by_value [OF t _ j l, of 0 7] by (simp add: h item_get_def)
  moreover have "backgroundColor (body ?t ! 1 ! 0) = Some ''#FBBF24''"
    using roi_colour_by_value [OF t _ j l, of 1 "701 / 100"] by (simp add: h item_get_def)
  moreover have "backgroundColor (body ?t ! 2 ! 0) = Some ''#FBBF24''"
    using roi_colour_by_value [OF t _ j l, of 2 8] by (simp add: h item_get_def)
  moreover have "backgroundColor (body ?t ! 3 ! 0) = Some ''#FBBF24''"
    using roi_colour_by_value [OF t _ j l, of 3 14] by (simp add: h item_get_def)
  moreover have "backgroundColor (body ?t ! 4 ! 0) = Some ''#34D399''"
    using roi_colour_by_value [OF t _ j l, of 4 "1401 / 100"] by (simp add: h item_get_def)
  moreover have "backgroundColor (body ?t ! 5 ! 0) = Some ''#34D399''"
    using roi_colour_by_value [OF t _ j l, of 5 15] by (simp add: h item_get_def)
  ultimately show ?thesis by simp
qed

theorem missing_roi_is_green_witness:
  "children (body (the (SectionTable no_numeric_strings ''Training Recommendations''
       (Some [[(''Skill'', JStr ''SQL''), (''ROI'', JNum 15)], [(''Skill'', JStr ''Go'')]])
       None)) ! 1 ! 1) = JUndefined
   \<and> backgroundColor (body (the (SectionTable no_numeric_strings ''Training Recommendations''
       (Some [[(''Skill'', JStr ''SQL''), (''ROI'', JNum 15)], [(''Skill'', JStr ''Go'')]])
       None)) ! 1 ! 1) = Some ''#34D399''
   \<and> backgroundColor (body (the (SectionTable no_numeric_strings ''Training Recommendations''
       (Some [[(''Skill'', JStr ''SQL''), (''ROI'', JNum 15)], [(''Skill'', JStr ''Go'')]])
       None)) ! 0 ! 1) = Some ''#34D399''"
proof -
  let ?its = "[[(''Skill'', JStr ''SQL''), (''ROI'', JNum 15)], [(''Skill'', JStr ''Go'')]]"
  let ?t = "the (SectionTable no_numeric_strings ''Training Recommendations'' (Some ?its) None)"
  have t: "SectionTable no_numeric_strings ''Training Recommendations'' (Some ?its) None = Some ?t"
    by (rule the_SectionTable)
  have h: "headers ?t = [''Skill'', ''ROI'']"
    by (simp add: SectionTable_Cons Object_keys_def)
  have i: "1 < length ?its" by simp
  have j: "1 < length (headers ?t)" and l: "toLowerCase (headers ?t ! 1) = ''roi''"
    by (simp_all add: h toLowerCase_def toLowerChar_def)
  have m: "headers ?t ! 1 \<notin> set (Object_keys (?its ! 1))"
    by (simp add: h Object_keys_def)
  have high: "backgroundColor (body ?t ! 0 ! 1) = Some ''#34D399''"
    by (simp add: SectionTable_Cons Object_keys_def render_td_def item_get_def
        toLowerCase_def toLowerChar_def js_le_def)
  from missing_roi_is_green [OF t i j l m] high show ?thesis by simp
qed


lemma currency_cell_shown:
  "is_currency_column col \<Longrightarrow>
   children (render_td S (Some fmt) it col) =
     (if ToBoolean (item_get it col) then JStr (fmt (item_get it col)) else item_get it col)"
  by (simp add: render_td_def Let_def)

lemma decimal_digit: "n < 10 \<Longrightarrow> decimal n = [digit_char n]"
  by (simp add: decimal.simps)

lemma roundHalfExpand_of_int: "roundHalfExpand (of_int k) = nat \<bar>k\<bar>"
proof -
  have "\<lfloor>(of_int \<bar>k\<bar> :: rat) + 1 / 2\<rfloor> = \<bar>k\<bar>" by linarith
  then show ?thesis by (simp add: roundHalfExpand_def)
qed

lemma roundHalfExpand_near: "\<bar>of_nat (roundHalfExpand q) - \<bar>q\<bar>\<bar> \<le> 1 / 2"
proof -
  have "0 \<le> \<lfloor>\<bar>q\<bar> + 1 / 2\<rfloor>" by simp
  then have "(of_nat (roundHalfExpand q) :: rat) = of_int \<lfloor>\<bar>q\<bar> + 1 / 2\<rfloor>"
    by (simp add: roundHalfExpand_def)
  then show ?thesis by linarith
qed

lemma roundHalfExpand_numeral: "roundHalfExpand (numeral n) = numeral n"
  using roundHalfExpand_of_int [of "numeral n"] by simp

lemma roundHalfExpand_zero: "roundHalfExpand 0 = 0"
  using roundHalfExpand_of_int [of 0] by simp

lemma decimal_8300: "decimal 8300 = ''8300''"
  by (simp add: decimal.simps digit_char_def)

lemma decimal_1200: "decimal 1200 = ''1200''"
  by (simp add: decimal.simps digit_char_def)

lemma decimal_100: "decimal 100 = ''100''"
  by (simp add: decimal.simps digit_char_def)

lemma format_8300_INR: "NumberFormat_format en_IN_INR (Fin 8300) = rupee @ ''8,300''"
  by (simp add: roundHalfExpand_numeral decimal_8300 grouped_def upt_rec)

lemma format_1200_INR: "NumberFormat_format en_IN_INR (Fin 1200) = rupee @ ''1,200''"
  by (simp add: roundHalfExpand_numeral decimal_1200 grouped_def upt_rec)

lemma format_100_INR: "NumberFormat_format en_IN_INR (Fin 100) = rupee @ ''100''"
  by (simp add: roundHalfExpand_numeral decimal_100 grouped_def upt_rec)

lemma format_0_INR: "NumberFormat_format en_IN_INR (Fin 0) = rupee @ ''0''"
  by (simp add: roundHalfExpand_zero decimal_digit digit_char_def grouped_def)

lemma format_100_USD: "NumberFormat_format en_US_USD (Fin 100) = ''$100''"
  by (simp add: roundHalfExpand_numeral decimal_100 grouped_def upt_rec)

lemma roundHalfExpand_100_over_83: "roundHalfExpand (100 / 83) = 1"
  by (simp add: roundHalfExpand_def floor_rat_numeral)

lemma format_100_over_83_USD: "NumberFormat_format en_US_USD (Fin (100 / 83)) = ''$1''"
  by (simp add: roundHalfExpand_100_over_83 decimal_digit digit_char_def grouped_def)

lemma format_1_INR: "NumberFormat_format en_IN_INR (Fin 1) = rupee @ ''1''"
  using roundHalfExpand_of_int [of 1]
  by (simp add: decimal_digit digit_char_def grouped_def)

lemma format_NaN_INR: "NumberFormat_format en_IN_INR NaN = rupee @ ''NaN''"
  by simp

lemma map_of_restrict_keys:
  "col \<in> set cols \<Longrightarrow> map_of (restrict_keys cols it) col = map_of it col"
  by (induction it) (auto simp: restrict_keys_def)

lemma render_td_restrict_keys:
  "col \<in> set cols \<Longrightarrow> render_td S f (restrict_keys cols it) col = render_td S f it col"
  by (simp add: render_td_def item_get_def map_of_restrict_keys)

lemma render_row_restrict_keys:
  "map (render_td S f (restrict_keys cols it)) cols = map (render_td S f it) cols"
  by (simp add: render_td_restrict_keys)

lemma render_td_inherited:
  assumes "col \<notin> set (Object_keys it)" and "col \<in> set Object_prototype_names"
  shows "children (render_td S f it col) =
    (case f of
       Some format \<Rightarrow>
         if is_currency_column col then JStr (format (JInherited col)) else JInherited col
     | None \<Rightarrow> JInherited col)"
proof -
  from assms(1) have "map_of it col = None"
    by (simp add: Object_keys_def map_of_eq_None_iff)
  with assms(2) have "item_get it col = JInherited col"
    by (simp add: item_get_def)
  then show ?thesis
    by (simp add: render_td_def Let_def split: option.splits)
qed

lemma render_td_missing:
  assumes "col \<notin> set (Object_keys it)" and "col \<notin> set Object_prototype_names"
  shows "children (render_td S f it col) = JUndefined"
proof -
  from assms(1) have "map_of it col = None"
    by (simp add: Object_keys_def map_of_eq_None_iff)
  with assms(2) have "item_get it col = JUndefined"
    by (simp add: item_get_def)
  then show ?thesis
    by (simp add: render_td_def Let_def split: option.splits)
qed

text \<open>
  Claim C3, as amended. A non-empty collection always gives a table. Its headers are the
  keys of the first record, in that record's order; it has one row per record and one cell
  per header in every row. Where a record lacks a header's key, and the key is not a name
  that every object inherits, the cell's child is \<^verbatim>\<open>undefined\<close>, which shows as a
  blank cell; where the key is such a name, the cell holds the inherited property, put
  through the currency formatter in a currency column. Keys that the first record does not
  have are not shown: the table is the same as the one for the later records cut down to
  the first record's keys.
\<close>

theorem columns_from_first_record:
  "SectionTable S ttl (Some (first # rest)) f \<noteq> None
   \<and> (\<forall>t. SectionTable S ttl (Some (first # rest)) f = Some t \<longrightarrow>
        headers t = Object_keys first
        \<and> length (body t) = length (first # rest)
        \<and> (\<forall>i < length (first # rest). length (body t ! i) = length (Object_keys first))
        \<and> (\<forall>i < length (first # rest). \<forall>j < length (Object_keys first).
              Object_keys first ! j \<notin> set (Object_keys ((first # rest) ! i))
              \<and> Object_keys first ! j \<notin> set Object_prototype_names \<longrightarrow>
              children (body t ! i ! j) = JUndefined \<and> blank (children (body t ! i ! j)))
        \<and> (\<forall>i < length (first # rest). \<forall>j < length (Object_keys first).
              Object_keys first ! j \<notin> set (Object_keys ((first # rest) ! i))
              \<and> Object_keys first ! j \<in> set Object_prototype_names \<longrightarrow>
              children (body t ! i ! j) =
                (case f of
                   Some format \<Rightarrow>
                     if is_currency_column (Object_keys first ! j)
                     then JStr (format (JInherited (Object_keys first ! j)))
                     else JInherited (Object_keys first ! j)
                 | None \<Rightarrow> JInherited (Object_keys first ! j)))
        \<and> SectionTable S ttl
             (Some (first # map (restrict_keys (Object_keys first)) rest)) f = Some t)"
proof -
  let ?t = "\<lparr>title = ttl, headers = Object_keys first,
           body = map (\<lambda>it. map (render_td S f it) (Object_keys first)) (first # rest)\<rparr>"
  have eq: "SectionTable S ttl (Some (first # rest)) f = Some ?t"
    by (rule SectionTable_Cons)
  have len: "\<forall>i < length (first # rest). length (body ?t ! i) = length (Object_keys first)"
    by (simp add: nth_Cons split: nat.splits)
  have cell: "body ?t ! i ! j = render_td S f ((first # rest) ! i) (Object_keys first ! j)"
    if i: "i < length (first # rest)" and j: "j < length (Object_keys first)" for i j
  proof -
    have "headers ?t = Object_keys first" by simp
    with j have j': "j < length (headers ?t)" by simp
    from SectionTable_cell [OF eq i j'] show ?thesis by simp
  qed
  have missing: "\<forall>i < length (first # rest). \<forall>j < length (Object_keys first).
              Object_keys first ! j \<notin> set (Object_keys ((first # rest) ! i))
              \<and> Object_keys first ! j \<notin> set Object_prototype_names \<longrightarrow>
              children (body ?t ! i ! j) = JUndefined \<and> blank (children (body ?t ! i ! j))"
  proof (intro allI impI, elim conjE)
    fix i j
    assume i: "i < length (first # rest)" and j: "j < length (Object_keys first)"
      and m: "Object_keys first ! j \<notin> set (Object_keys ((first # rest) ! i))"
      and n: "Object_keys first ! j \<notin> set Object_prototype_names"
    from render_td_missing [OF m n] cell [OF i j] show
      "children (body ?t ! i ! j) = JUndefined \<and> blank (children (body ?t ! i ! j))"
      by simp
  qed
  have inherited: "\<forall>i < length (first # rest). \<forall>j < length (Object_keys first).
              Object_keys first ! j \<notin> set (Object_keys ((first # rest) ! i))
              \<and> Object_keys first ! j \<in> set Object_prototype_names \<longrightarrow>
              children (body ?t ! i ! j) =
                (case f of
                   Some format \<Rightarrow>
                     if is_currency_column (Object_keys first ! j)
                     then JStr (format (JInherited (Object_keys first ! j)))
                     else JInherited (Object_keys first ! j)
                 | None \<Rightarrow> JInherited (Object_keys first ! j))"
  proof (intro allI impI, elim conjE)
    fix i j
    assume i: "i < length (first # rest)" and j: "j < length (Object_keys first)"
      and m: "Object_keys first ! j \<notin> set (Object_keys ((first # rest) ! i))"
      and n: "Object_keys first ! j \<in> set Object_prototype_names"
    from render_td_inherited [OF m n] cell [OF i j] show
      "children (body ?t ! i ! j) =
                (case f of
                   Some format \<Rightarrow>
                     if is_currency_column (Object_keys first ! j)
                     then JStr (format (JInherited (Object_keys first ! j)))
                     else JInherited (Object_keys first ! j)
                 | None \<Rightarrow> JInherited (Object_keys first ! j))"
      by simp
  qed
  have extra: "SectionTable S ttl
             (Some (first # map (restrict_keys (Object_keys first)) rest)) f = Some ?t"
    by (simp add: SectionTable_Cons render_row_restrict_keys)
  from len missing inherited extra show ?thesis
    unfolding eq by simp
qed

theorem columns_from_first_record_witness:
  "SectionTable no_numeric_strings ''Risk Flags''
     (Some [[(''Name'', JStr ''Asha''), (''Risk'', JStr ''High'')],
            [(''Team'', JStr ''Ops''), (''Name'', JStr ''Ravi'')]]) None
   = Some \<lparr>title = ''Risk Flags'', headers = [''Name'', ''Risk''],
       body = [[\<lparr>backgroundColor = None, color = None, children = JStr ''Asha''\<rparr>,
                \<lparr>backgroundColor = None, color = None, children = JStr ''High''\<rparr>],
               [\<lparr>backgroundColor = None, color = None, children = JStr ''Ravi''\<rparr>,
                \<lparr>backgroundColor = None, color = None, children = JUndefined\<rparr>]]\<rparr>
   \<and> ''Risk'' \<notin> set (Object_keys [(''Team'', JStr ''Ops''), (''Name'', JStr ''Ravi'')])
   \<and> ''Risk'' \<notin> set Object_prototype_names
   \<and> blank (children (body (the (SectionTable no_numeric_strings ''Risk Flags''
     (Some [[(''Name'', JStr ''Asha''), (''Risk'', JStr ''High'')],
            [(''Team'', JStr ''Ops''), (''Name'', JStr ''Ravi'')]]) None)) ! 1 ! 1))
   \<and> SectionTable no_numeric_strings ''Risk Flags''
     (Some [[(''Name'', JStr ''Asha''), (''Risk'', JStr ''High'')],
            [(''Name'', JStr ''Ravi'')]]) None
     = SectionTable no_numeric_strings ''Risk Flags''
     (Some [[(''Name'', JStr ''Asha''), (''Risk'', JStr ''High'')],
            [(''Team'', JStr ''Ops''), (''Name'', JStr ''Ravi'')]]) None"
proof -
  let ?first = "[(''Name'', JStr ''Asha''), (''Risk'', JStr ''High'')]"
  let ?rest = "[[(''Team'', JStr ''Ops''), (''Name'', JStr ''Ravi'')]]"
  let ?t = "\<lparr>title = ''Risk Flags'', headers = [''Name'', ''Risk''],
       body = [[\<lparr>backgroundColor = None, color = None, children = JStr ''Asha''\<rparr>,
                \<lparr>backgroundColor = None, color = None, children = JStr ''High''\<rparr>],
               [\<lparr>backgroundColor = None, color = None, children = JStr ''Ravi''\<rparr>,
                \<lparr>backgroundColor = None, color = None, children = JUndefined\<rparr>]]\<rparr>"
  have t: "SectionTable no_numeric_strings ''Risk Flags'' (Some (?first # ?rest)) None = Some ?t"
    by (simp add: SectionTable_Cons Object_keys_def render_td_def item_get_def
        Object_prototype_names_def toLowerCase_def toLowerChar_def)
  have r: "map (restrict_keys (Object_keys ?first)) ?rest = [[(''Name'', JStr ''Ravi'')]]"
    by (simp add: restrict_keys_def Object_keys_def)
  have m: "Object_keys ?first ! 1 \<notin> set (Object_keys ((?first # ?rest) ! 1))
      \<and> Object_keys ?first ! 1 \<notin> set Object_prototype_names"
    by (simp add: Object_keys_def Object_prototype_names_def)
  note c = columns_from_first_record [of no_numeric_strings "''Risk Flags''" ?first ?rest None]
  from c t
  have "\<forall>i < length (?first # ?rest). \<forall>j < length (Object_keys ?first).
              Object_keys ?first ! j \<notin> set (Object_keys ((?first # ?rest) ! i))
              \<and> Object_keys ?first ! j \<notin> set Object_prototype_names \<longrightarrow>
              children (body ?t ! i ! j) = JUndefined \<and> blank (children (body ?t ! i ! j))"
    by blast
  with m have b: "blank (children (body ?t ! 1 ! 1))"
    by (simp add: Object_keys_def)
  from c t
  have "SectionTable no_numeric_strings ''Risk Flags''
      (Some (?first # map (restrict_keys (Object_keys ?first)) ?rest)) None = Some ?t"
    by blast
  with t r b m show ?thesis by (simp add: Object_keys_def)
qed

text \<open>
  Claim C3 as stated fails where the missing key is a name that every object inherits. In
  a table with a currency formatter whose first record has the key \<^verbatim>\<open>valueOf\<close>, a
  record without that key reads the inherited function there; it is truthy, the column
  name contains \<^verbatim>\<open>value\<close>, and the cell shows the currency string of \<^verbatim>\<open>NaN\<close>
  instead of being blank.
\<close>

theorem inherited_name_not_blank_counterexample:
  "SectionTable no_numeric_strings ''Training Recommendations''
     (Some [[(''valueOf'', JNum 1), (''Name'', JStr ''a'')], [(''Name'', JStr ''x'')]])
     (Some (formatCurrency no_numeric_strings INR))
   = Some \<lparr>title = ''Training Recommendations'', headers = [''valueOf'', ''Name''],
       body = [[\<lparr>backgroundColor = None, color = None, children = JStr (rupee @ ''1'')\<rparr>,
                \<lparr>backgroundColor = None, color = None, children = JStr ''a''\<rparr>],
               [\<lparr>backgroundColor = None, color = None, children = JStr (rupee @ ''NaN'')\<rparr>,
                \<lparr>backgroundColor = None, color = None, children = JStr ''x''\<rparr>]]\<rparr>
   \<and> ''valueOf'' \<notin> set (Object_keys [(''Name'', JStr ''x'')])
   \<and> \<not> blank (JStr (rupee @ ''NaN''))"
  by (simp add: SectionTable_Cons Object_keys_def render_td_def item_get_def
      Object_prototype_names_def is_currency_column_def startsWith_def
      toLowerCase_def toLowerChar_def formatCurrency_def format_1_INR format_NaN_INR
      rupee_def del: NumberFormat_format.simps)

text \<open>
  Claim C4. \<^verbatim>\<open>SectionTable\<close> returns \<^verbatim>\<open>null\<close> for an absent and for an empty
  collection, so nothing of the section is rendered, title included. The dashboard has six
  sections; each of them is \<^verbatim>\<open>null\<close> when its collection (for the hiring section:
  \<^verbatim>\<open>hiring\<close> or its \<^verbatim>\<open>employees\<close>) is absent or empty.
\<close>

theorem empty_collection_renders_nothing:
  "SectionTable S ttl None f = None
   \<and> SectionTable S ttl (Some []) f = None
   \<and> length (tables_section S cur d) = 6
   \<and> (activities_with_metrics d = None \<or> activities_with_metrics d = Some []
        \<longrightarrow> tables_section S cur d ! 0 = None)
   \<and> (rebalance d = None \<or> rebalance d = Some [] \<longrightarrow> tables_section S cur d ! 1 = None)
   \<and> (hiring d = None \<or> hiring_employees d = None \<or> hiring_employees d = Some []
        \<longrightarrow> tables_section S cur d ! 2 = None)
   \<and> (training d = None \<or> training d = Some [] \<longrightarrow> tables_section S cur d ! 3 = None)
   \<and> (appraisal d = None \<or> appraisal d = Some [] \<longrightarrow> tables_section S cur d ! 4 = None)
   \<and> (risks d = None \<or> risks d = Some [] \<longrightarrow> tables_section S cur d ! 5 = None)"
  by (auto simp: SectionTable_def tables_section_def hiring_employees_def)

theorem empty_collection_renders_nothing_witness:
  "tables_section no_numeric_strings INR
     \<lparr>activities_with_metrics = Some [], rebalance = None, training = Some [],
      appraisal = None, risks = Some [], hiring = None\<rparr>
   = [None, None, None, None, None, None]
   \<and> tables_section no_numeric_strings INR
     \<lparr>activities_with_metrics = None, rebalance = Some [], training = None,
      appraisal = Some [], risks = None,
      hiring = Some \<lparr>NewHires = JNum 0, employees = Some []\<rparr>\<rparr>
   = [None, None, None, None, None, None]"
proof -
  let ?d = "\<lparr>activities_with_metrics = Some [], rebalance = None, training = Some [],
      appraisal = None, risks = Some [], hiring = None\<rparr>"
  let ?e = "\<lparr>activities_with_metrics = None, rebalance = Some [], training = None,
      appraisal = Some [], risks = None,
      hiring = Some \<lparr>NewHires = JNum 0, employees = Some []\<rparr>\<rparr>"
  have six: "\<And>xs :: section_table option list. length xs = 6 \<Longrightarrow>
     xs = [xs ! 0, xs ! 1, xs ! 2, xs ! 3, xs ! 4, xs ! 5]"
    by (simp add: list_eq_iff_nth_eq numeral_eq_Suc less_Suc_eq_0_disj nth_Cons split: nat.splits) 
  have "tables_section no_numeric_strings INR ?d = [None, None, None, None, None, None]"
    using empty_collection_renders_nothing [of no_numeric_strings _ _ INR ?d]
      six [of "tables_section no_numeric_strings INR ?d"]
    by (simp add: hiring_employees_def)
  moreover have "tables_section no_numeric_strings INR ?e = [None, None, None, None, None, None]"
    using empty_collection_renders_nothing [of no_numeric_strings _ _ INR ?e]
      six [of "tables_section no_numeric_strings INR ?e"]
    by (simp add: hiring_employees_def)
  ultimately show ?thesis by simp
qed


text \<open>
  Claim C5, as amended. For a numeric amount of magnitude at most \<open>10\<^sup>1\<^sup>5\<close>, the formatter
  in USD displays the amount divided by 83 rounded to a whole number (a half away from
  zero), as grouped digits after the sign and the dollar sign; in INR it displays the
  amount itself rounded so. The whole number displayed in USD is within one half of the
  amount's magnitude divided by 83. For an amount that is 83 times a whole number \<open>k\<close>,
  USD displays the digits of \<open>k\<close> and INR the digits of 83 times \<open>k\<close>: the two displayed
  magnitudes differ by exactly the factor 83. The amount 8300 is displayed as 8,300 rupees
  and as 100 dollars.
\<close>

theorem usd_is_amount_over_rate:
  assumes "\<bar>a\<bar> \<le> 10 ^ 15"
  shows "formatCurrency S USD (JNum a)
       = (if a < 0 then ''-'' else []) @ ''$''
           @ grouped en_US_USD (decimal (roundHalfExpand (a / 83)))
   \<and> formatCurrency S INR (JNum a)
       = (if a < 0 then ''-'' else []) @ rupee
           @ grouped en_IN_INR (decimal (roundHalfExpand a))
   \<and> \<bar>of_nat (roundHalfExpand (a / 83)) - \<bar>a\<bar> / 83\<bar> \<le> 1 / 2
   \<and> (a = of_int (83 * k) \<longrightarrow>
        formatCurrency S USD (JNum a)
          = (if k < 0 then ''-'' else []) @ ''$'' @ grouped en_US_USD (decimal (nat \<bar>k\<bar>))
        \<and> formatCurrency S INR (JNum a)
          = (if k < 0 then ''-'' else []) @ rupee
              @ grouped en_IN_INR (decimal (83 * nat \<bar>k\<bar>)))
   \<and> formatCurrency S INR (JNum 8300) = rupee @ ''8,300''
   \<and> formatCurrency S USD (JNum 8300) = ''$100''"
proof -
  have usd: "formatCurrency S USD (JNum a)
       = (if a < 0 then ''-'' else []) @ ''$''
           @ grouped en_US_USD (decimal (roundHalfExpand (a / 83)))"
    by (simp add: formatCurrency_def usdRate_def)
  have inr: "formatCurrency S INR (JNum a)
       = (if a < 0 then ''-'' else []) @ rupee
           @ grouped en_IN_INR (decimal (roundHalfExpand a))"
    by (simp add: formatCurrency_def)
  have near: "\<bar>of_nat (roundHalfExpand (a / 83)) - \<bar>a\<bar> / 83\<bar> \<le> 1 / 2"
    using roundHalfExpand_near [of "a / 83"] by simp
  have whole: "a = of_int (83 * k) \<longrightarrow>
        formatCurrency S USD (JNum a)
          = (if k < 0 then ''-'' else []) @ ''$'' @ grouped en_US_USD (decimal (nat \<bar>k\<bar>))
        \<and> formatCurrency S INR (JNum a)
          = (if k < 0 then ''-'' else []) @ rupee
              @ grouped en_IN_INR (decimal (83 * nat \<bar>k\<bar>))"
  proof
    assume a: "a = of_int (83 * k)"
    then have q: "a / 83 = of_int k" by simp
    have s: "(a < 0) = (k < 0)" using a by simp
    have "roundHalfExpand (of_int (83 * k)) = nat \<bar>83 * k\<bar>"
      by (rule roundHalfExpand_of_int)
    also have "\<dots> = 83 * nat \<bar>k\<bar>"
      by (simp add: abs_mult nat_mult_distrib)
    finally have "roundHalfExpand a = 83 * nat \<bar>k\<bar>"
      by (simp only: a)
    moreover have "roundHalfExpand (a / 83) = nat \<bar>k\<bar>"
      by (simp only: q roundHalfExpand_of_int)
    ultimately show "formatCurrency S USD (JNum a)
          = (if k < 0 then ''-'' else []) @ ''$'' @ grouped en_US_USD (decimal (nat \<bar>k\<bar>))
        \<and> formatCurrency S INR (JNum a)
          = (if k < 0 then ''-'' else []) @ rupee
              @ grouped en_IN_INR (decimal (83 * nat \<bar>k\<bar>))"
      by (simp only: usd inr s)
  qed
  have inr_8300: "formatCurrency S INR (JNum 8300) = rupee @ ''8,300''"
    by (simp add: formatCurrency_def format_8300_INR del: NumberFormat_format.simps)
  have usd_8300: "formatCurrency S USD (JNum 8300) = ''$100''"
    by (simp add: formatCurrency_def usdRate_def format_100_USD del: NumberFormat_format.simps)
  show ?thesis
    by (intro conjI) (fact usd inr near whole inr_8300 usd_8300)+
qed

theorem usd_is_amount_over_rate_witness:
  "\<bar>8300 :: rat\<bar> \<le> 10 ^ 15
   \<and> (8300 :: rat) = of_int (83 * 100)
   \<and> formatCurrency no_numeric_strings USD (JNum 8300) = ''$100''
   \<and> formatCurrency no_numeric_strings INR (JNum 8300) = rupee @ ''8,300''
   \<and> \<bar>of_nat (roundHalfExpand (8300 / 83)) - \<bar>8300 :: rat\<bar> / 83\<bar> \<le> 1 / 2"
proof -
  have h: "\<bar>8300 :: rat\<bar> \<le> 10 ^ 15" and m: "(8300 :: rat) = of_int (83 * 100)"
    by simp_all
  note c = usd_is_amount_over_rate [OF h, of no_numeric_strings 100]
  from c m have "formatCurrency no_numeric_strings USD (JNum 8300)
      = (if (100 :: int) < 0 then ''-'' else []) @ ''$''
          @ grouped en_US_USD (decimal (nat \<bar>100 :: int\<bar>))
    \<and> formatCurrency no_numeric_strings INR (JNum 8300)
      = (if (100 :: int) < 0 then ''-'' else []) @ rupee
          @ grouped en_IN_INR (decimal (83 * nat \<bar>100 :: int\<bar>))"
    by blast
  then have "formatCurrency no_numeric_strings USD (JNum 8300) = ''$100''
    \<and> formatCurrency no_numeric_strings INR (JNum 8300) = rupee @ ''8,300''"
    by (simp add: decimal_100 decimal_8300 grouped_def upt_rec)
  moreover from c
  have "\<bar>of_nat (roundHalfExpand (8300 / 83)) - \<bar>8300 :: rat\<bar> / 83\<bar> \<le> 1 / 2"
    by blast
  ultimately show ?thesis using h m by blast
qed

text \<open>
  Claim C5 as stated fails at the amount 100: it is displayed as 100 rupees and as 1 dollar,
  while 100 divided by 83 is not 1, and 1 times 83 is not 100.
\<close>

theorem usd_not_exact_counterexample:
  "formatCurrency no_numeric_strings INR (JNum 100) = rupee @ ''100''
   \<and> formatCurrency no_numeric_strings USD (JNum 100) = ''$1''
   \<and> (100 :: rat) / usdRate \<noteq> 1
   \<and> of_nat (roundHalfExpand (100 / usdRate)) * usdRate \<noteq> (of_nat (roundHalfExpand 100) :: rat)"
  by (simp add: formatCurrency_def usdRate_def format_100_INR format_100_over_83_USD
      roundHalfExpand_100_over_83 roundHalfExpand_numeral del: NumberFormat_format.simps)

text \<open>
  Claim C1 at a table with a currency formatter and the rows \<^verbatim>\<open>{Cost: 1200}\<close> and
  \<^verbatim>\<open>{Cost: 0}\<close>: the first cell shows the currency string, the second shows the bare
  number 0, though 0 is neither empty nor null and \<^verbatim>\<open>formatCurrency(0)\<close> is a currency
  string.
\<close>

theorem zero_amount_left_unformatted:
  "SectionTable S ''Training Recommendations''
     (Some [[(''Cost'', JNum 1200)], [(''Cost'', JNum 0)]]) (Some (formatCurrency S INR))
   = Some \<lparr>title = ''Training Recommendations'', headers = [''Cost''],
       body = [[\<lparr>backgroundColor = None, color = None, children = JStr (rupee @ ''1,200'')\<rparr>],
               [\<lparr>backgroundColor = None, color = None, children = JNum 0\<rparr>]]\<rparr>
   \<and> formatCurrency S INR (JNum 0) = rupee @ ''0''"
  by (simp add: SectionTable_Cons Object_keys_def render_td_def item_get_def
      is_currency_column_def startsWith_def toLowerCase_def toLowerChar_def
      formatCurrency_def format_1200_INR format_0_INR del: NumberFormat_format.simps)


section \<open>Properties of the upload handlers and the upload client\<close>

lemma dashboard_try_failed:
  "upload_failed outcome \<Longrightarrow> \<exists>err. dashboard_try outcome = Inl err"
  by (auto simp: upload_failed_def dashboard_try_def
      split: fetch_outcome.splits response_json.splits)

lemma dashboard_try_Inr:
  "dashboard_try outcome = Inr result \<Longrightarrow>
     \<exists>status. outcome = Response status (Parsed result) \<and> ok status"
  by (auto simp: dashboard_try_def split: fetch_outcome.splits response_json.splits if_splits)

lemma uploadCSV_result_failed:
  "upload_failed outcome = (\<exists>err. uploadCSV_result outcome = Inl err)"
  by (auto simp: upload_failed_def uploadCSV_result_def
      split: fetch_outcome.splits response_json.splits)

lemma uploadCSV_result_Inr:
  "uploadCSV_result outcome = Inr result \<Longrightarrow>
     \<exists>status. outcome = Response status (Parsed result) \<and> ok status"
  by (auto simp: uploadCSV_result_def split: fetch_outcome.splits response_json.splits if_splits)

lemma handleUpload_selected:
  assumes "rosterFile s = Some r" "activitiesFile s = Some a" "skillsFile s = Some k"
  shows "handleUpload server (s, w) =
    (case dashboard_try (server (dashboard_request r a k)) of
       Inr result \<Rightarrow>
         (s\<lparr>loading := False, data := Some result\<rparr>,
          w\<lparr>requests := requests w @ [dashboard_request r a k]\<rparr>)
     | Inl err \<Rightarrow>
         (s\<lparr>loading := False\<rparr>,
          w\<lparr>requests := requests w @ [dashboard_request r a k],
            console_error := console_error w @ [[Text ''Upload failed:'', Thrown err]],
            alerts := alerts w @ [''Upload failed! Check console for details.'']\<rparr>))"
  using assms
  by (simp add: handleUpload_def handleUpload_begin_def handleUpload_resume_def Let_def
      split: sum.splits)

lemma handleUpload_missing:
  assumes "rosterFile s = None \<or> activitiesFile s = None \<or> skillsFile s = None"
  shows "handleUpload server (s, w) =
    (s, w\<lparr>alerts := alerts w @ [''Please select all three files!'']\<rparr>)"
  using assms by (auto simp: handleUpload_def handleUpload_begin_def split: option.splits)

lemma CSVUploader_selected:
  assumes "roster e = Some r" "activities e = Some a" "skill_library e = Some k"
  shows "CSVUploader_handleUpload server e (u, w) =
    (case uploadCSV_result (server (uploadCSV_request r a k)) of
       Inr d \<Rightarrow>
         (u\<lparr>uploader_loading := False, dashboardData := Some d\<rparr>,
          w\<lparr>requests := requests w @ [uploadCSV_request r a k],
            alerts := alerts w @ [''CSV files uploaded and processed successfully!'']\<rparr>)
     | Inl err \<Rightarrow>
         (u\<lparr>uploader_loading := False\<rparr>,
          w\<lparr>requests := requests w @ [uploadCSV_request r a k],
            console_error := console_error w @ [[Thrown err]],
            alerts := alerts w @ [''Error uploading files'']\<rparr>))"
  using assms
  by (simp add: CSVUploader_handleUpload_def CSVUploader_begin_def CSVUploader_resume_def
      Let_def split: sum.splits)

lemma CSVUploader_missing:
  assumes "roster e = None \<or> activities e = None \<or> skill_library e = None"
  shows "CSVUploader_handleUpload server e (u, w) =
    (u, w\<lparr>alerts := alerts w @ [''All files required!'']\<rparr>)"
  using assms
  by (auto simp: CSVUploader_handleUpload_def CSVUploader_begin_def split: option.splits)

text \<open>
  Claim C6. When the upload fails (the fetch is rejected, the status is not a success, or
  the body does not parse), the rest of the handler shows the alert and changes nothing of
  the state but the \<^verbatim>\<open>loading\<close> flag, which it clears. So, when all three files are
  selected and the upload fails, the dashboard's handler ends
  with the state it started from except that \<^verbatim>\<open>loading\<close> is false, so the stored data
  is unchanged and the upload button, disabled while \<^verbatim>\<open>loading\<close>, is enabled again;
  it has shown the alert. The uploader form does the same with its own flag and the shared
  \<^verbatim>\<open>dashboardData\<close>. In both, the stored data changes only when all three files
  were selected and the response had a success status and a body that parsed, and then to
  that parsed result.
\<close>

theorem failed_upload_keeps_data:
  "(upload_failed outcome \<longrightarrow>
        fst (handleUpload_resume outcome (s, w)) = s\<lparr>loading := False\<rparr>
        \<and> alerts (snd (handleUpload_resume outcome (s, w)))
            = alerts w @ [''Upload failed! Check console for details.''])
   \<and> (upload_failed outcome \<longrightarrow>
        fst (CSVUploader_resume (uploadCSV_result outcome) (u, w))
          = u\<lparr>uploader_loading := False\<rparr>
        \<and> alerts (snd (CSVUploader_resume (uploadCSV_result outcome) (u, w)))
            = alerts w @ [''Error uploading files''])
   \<and> (rosterFile s = Some r \<and> activitiesFile s = Some a \<and> skillsFile s = Some k
      \<and> upload_failed (server (dashboard_request r a k)) \<longrightarrow>
        fst (handleUpload server (s, w)) = s\<lparr>loading := False\<rparr>
        \<and> data (fst (handleUpload server (s, w))) = data s
        \<and> loading (fst (handleUpload server (s, w))) = False
        \<and> alerts (snd (handleUpload server (s, w)))
            = alerts w @ [''Upload failed! Check console for details.''])
   \<and> (roster e = Some r \<and> activities e = Some a \<and> skill_library e = Some k
      \<and> upload_failed (server (uploadCSV_request r a k)) \<longrightarrow>
        fst (CSVUploader_handleUpload server e (u, w)) = u\<lparr>uploader_loading := False\<rparr>
        \<and> dashboardData (fst (CSVUploader_handleUpload server e (u, w))) = dashboardData u
        \<and> uploader_loading (fst (CSVUploader_handleUpload server e (u, w))) = False
        \<and> alerts (snd (CSVUploader_handleUpload server e (u, w)))
            = alerts w @ [''Error uploading files''])
   \<and> (data (fst (handleUpload server (s, w))) \<noteq> data s \<longrightarrow>
        (\<exists>r a k status result.
           rosterFile s = Some r \<and> activitiesFile s = Some a \<and> skillsFile s = Some k
           \<and> server (dashboard_request r a k) = Response status (Parsed result) \<and> ok status
           \<and> data (fst (handleUpload server (s, w))) = Some result))
   \<and> (dashboardData (fst (CSVUploader_handleUpload server e (u, w))) \<noteq> dashboardData u \<longrightarrow>
        (\<exists>r a k status result.
           roster e = Some r \<and> activities e = Some a \<and> skill_library e = Some k
           \<and> server (uploadCSV_request r a k) = Response status (Parsed result) \<and> ok status
           \<and> dashboardData (fst (CSVUploader_handleUpload server e (u, w))) = Some result))"
proof -
  have dash_resume: "upload_failed outcome \<longrightarrow>
        fst (handleUpload_resume outcome (s, w)) = s\<lparr>loading := False\<rparr>
        \<and> alerts (snd (handleUpload_resume outcome (s, w)))
            = alerts w @ [''Upload failed! Check console for details.'']"
  proof
    assume "upload_failed outcome"
    then obtain err where "dashboard_try outcome = Inl err"
      using dashboard_try_failed by blast
    then show "fst (handleUpload_resume outcome (s, w)) = s\<lparr>loading := False\<rparr>
        \<and> alerts (snd (handleUpload_resume outcome (s, w)))
            = alerts w @ [''Upload failed! Check console for details.'']"
      by (simp add: handleUpload_resume_def)
  qed
  have form_resume: "upload_failed outcome \<longrightarrow>
        fst (CSVUploader_resume (uploadCSV_result outcome) (u, w))
          = u\<lparr>uploader_loading := False\<rparr>
        \<and> alerts (snd (CSVUploader_resume (uploadCSV_result outcome) (u, w)))
            = alerts w @ [''Error uploading files'']"
  proof
    assume "upload_failed outcome"
    then obtain err where "uploadCSV_result outcome = Inl err"
      using uploadCSV_result_failed by blast
    then show "fst (CSVUploader_resume (uploadCSV_result outcome) (u, w))
          = u\<lparr>uploader_loading := False\<rparr>
        \<and> alerts (snd (CSVUploader_resume (uploadCSV_result outcome) (u, w)))
            = alerts w @ [''Error uploading files'']"
      by (simp add: CSVUploader_resume_def)
  qed
  have dash_fail: "rosterFile s = Some r \<and> activitiesFile s = Some a \<and> skillsFile s = Some k
      \<and> upload_failed (server (dashboard_request r a k)) \<longrightarrow>
        fst (handleUpload server (s, w)) = s\<lparr>loading := False\<rparr>
        \<and> data (fst (handleUpload server (s, w))) = data s
        \<and> loading (fst (handleUpload server (s, w))) = False
        \<and> alerts (snd (handleUpload server (s, w)))
            = alerts w @ [''Upload failed! Check console for details.'']"
  proof (intro impI, elim conjE)
    assume sel: "rosterFile s = Some r" "activitiesFile s = Some a" "skillsFile s = Some k"
      and "upload_failed (server (dashboard_request r a k))"
    then obtain err where "dashboard_try (server (dashboard_request r a k)) = Inl err"
      using dashboard_try_failed by blast
    then show "fst (handleUpload server (s, w)) = s\<lparr>loading := False\<rparr>
        \<and> data (fst (handleUpload server (s, w))) = data s
        \<and> loading (fst (handleUpload server (s, w))) = False
        \<and> alerts (snd (handleUpload server (s, w)))
            = alerts w @ [''Upload failed! Check console for details.'']"
      by (simp add: handleUpload_selected [OF sel])
  qed
  have form_fail: "roster e = Some r \<and> activities e = Some a \<and> skill_library e = Some k
      \<and> upload_failed (server (uploadCSV_request r a k)) \<longrightarrow>
        fst (CSVUploader_handleUpload server e (u, w)) = u\<lparr>uploader_loading := False\<rparr>
        \<and> dashboardData (fst (CSVUploader_handleUpload server e (u, w))) = dashboardData u
        \<and> uploader_loading (fst (CSVUploader_handleUpload server e (u, w))) = False
        \<and> alerts (snd (CSVUploader_handleUpload server e (u, w)))
            = alerts w @ [''Error uploading files'']"
  proof (intro impI, elim conjE)
    assume sel: "roster e = Some r" "activities e = Some a" "skill_library e = Some k"
      and "upload_failed (server (uploadCSV_request r a k))"
    then obtain err where "uploadCSV_result (server (uploadCSV_request r a k)) = Inl err"
      using uploadCSV_result_failed by blast
    then show "fst (CSVUploader_handleUpload server e (u, w)) = u\<lparr>uploader_loading := False\<rparr>
        \<and> dashboardData (fst (CSVUploader_handleUpload server e (u, w))) = dashboardData u
        \<and> uploader_loading (fst (CSVUploader_handleUpload server e (u, w))) = False
        \<and> alerts (snd (CSVUploader_handleUpload server e (u, w)))
            = alerts w @ [''Error uploading files'']"
      by (simp add: CSVUploader_selected [OF sel])
  qed
  have dash_only: "data (fst (handleUpload server (s, w))) \<noteq> data s \<longrightarrow>
        (\<exists>r a k status result.
           rosterFile s = Some r \<and> activitiesFile s = Some a \<and> skillsFile s = Some k
           \<and> server (dashboard_request r a k) = Response status (Parsed result) \<and> ok status
           \<and> data (fst (handleUpload server (s, w))) = Some result)"
  proof
    assume changed: "data (fst (handleUpload server (s, w))) \<noteq> data s"
    have "\<not> (rosterFile s = None \<or> activitiesFile s = None \<or> skillsFile s = None)"
    proof
      assume "rosterFile s = None \<or> activitiesFile s = None \<or> skillsFile s = None"
      from handleUpload_missing [OF this, of server w]
      have "data (fst (handleUpload server (s, w))) = data s" by simp
      with changed show False by simp
    qed
    then obtain r a k where sel:
      "rosterFile s = Some r" "activitiesFile s = Some a" "skillsFile s = Some k"
      by auto
    from changed obtain result where
      res: "dashboard_try (server (dashboard_request r a k)) = Inr result"
      by (cases "dashboard_try (server (dashboard_request r a k))")
        (simp_all add: handleUpload_selected [OF sel])
    then obtain status where
      "server (dashboard_request r a k) = Response status (Parsed result)" "ok status"
      using dashboard_try_Inr by blast
    moreover from res have "data (fst (handleUpload server (s, w))) = Some result"
      by (simp add: handleUpload_selected [OF sel])
    ultimately show "\<exists>r a k status result.
           rosterFile s = Some r \<and> activitiesFile s = Some a \<and> skillsFile s = Some k
           \<and> server (dashboard_request r a k) = Response status (Parsed result) \<and> ok status
           \<and> data (fst (handleUpload server (s, w))) = Some result"
      using sel by blast
  qed
  have form_only: "dashboardData (fst (CSVUploader_handleUpload server e (u, w))) \<noteq> dashboardData u \<longrightarrow>
        (\<exists>r a k status result.
           roster e = Some r \<and> activities e = Some a \<and> skill_library e = Some k
           \<and> server (uploadCSV_request r a k) = Response status (Parsed result) \<and> ok status
           \<and> dashboardData (fst (CSVUploader_handleUpload server e (u, w))) = Some result)"
  proof
    assume changed: "dashboardData (fst (CSVUploader_handleUpload server e (u, w))) \<noteq> dashboardData u"
    have "\<not> (roster e = None \<or> activities e = None \<or> skill_library e = None)"
    proof
      assume "roster e = None \<or> activities e = None \<or> skill_library e = None"
      from CSVUploader_missing [OF this, of server u w]
      have "dashboardData (fst (CSVUploader_handleUpload server e (u, w))) = dashboardData u"
        by simp
      with changed show False by simp
    qed
    then obtain r a k where sel:
      "roster e = Some r" "activities e = Some a" "skill_library e = Some k"
      by auto
    from changed obtain result where
      res: "uploadCSV_result (server (uploadCSV_request r a k)) = Inr result"
      by (cases "uploadCSV_result (server (uploadCSV_request r a k))")
        (simp_all add: CSVUploader_selected [OF sel])
    then obtain status where
      "server (uploadCSV_request r a k) = Response status (Parsed result)" "ok status"
      using uploadCSV_result_Inr by blast
    moreover from res
    have "dashboardData (fst (CSVUploader_handleUpload server e (u, w))) = Some result"
      by (simp add: CSVUploader_selected [OF sel])
    ultimately show "\<exists>r a k status result.
           roster e = Some r \<and> activities e = Some a \<and> skill_library e = Some k
           \<and> server (uploadCSV_request r a k) = Response status (Parsed result) \<and> ok status
           \<and> dashboardData (fst (CSVUploader_handleUpload server e (u, w))) = Some result"
      using sel by blast
  qed
  show ?thesis
    by (intro conjI)
      (fact dash_resume form_resume dash_fail form_fail dash_only form_only)+
qed


theorem failed_upload_keeps_data_witness:
  "upload_failed (Response 500 (Unparsable (SyntaxError ''Unexpected end of JSON input'')))
   \<and> fst (handleUpload_resume
        (Response 500 (Unparsable (SyntaxError ''Unexpected end of JSON input'')))
        (example_state\<lparr>loading := True\<rparr>, quiet_browser)) = example_state
   \<and> handleUpload
        (\<lambda>req. Response 500 (Unparsable (SyntaxError ''Unexpected end of JSON input'')))
        (example_state, quiet_browser)
      = (example_state,
         \<lparr>alerts = [''Upload failed! Check console for details.''],
          console_error = [[Text ''Upload failed:'',
                            Thrown (Error ''Server responded with status 500'')]],
          requests = [dashboard_request (File ''roster.csv'') (File ''activities.csv'')
                        (File ''skills.csv'')]\<rparr>)
   \<and> dashboardData (fst (CSVUploader_handleUpload
        (\<lambda>req. Response 500 (Unparsable (SyntaxError ''Unexpected end of JSON input'')))
        example_form
        (\<lparr>uploader_loading = False, dashboardData = Some example_result\<rparr>, quiet_browser)))
      = Some example_result
   \<and> data (fst (handleUpload (\<lambda>req. Response 200 (Parsed example_result))
        (example_state\<lparr>data := None\<rparr>, quiet_browser))) = Some example_result
   \<and> (\<exists>status. ok status)"
proof -
  let ?bad = "Response 500 (Unparsable (SyntaxError ''Unexpected end of JSON input''))"
  let ?server = "\<lambda>req :: request. ?bad"
  let ?good = "\<lambda>req :: request. Response 200 (Parsed example_result)"
  let ?u = "\<lparr>uploader_loading = False, dashboardData = Some example_result\<rparr>"
  have failed: "upload_failed ?bad"
    by (simp add: upload_failed_def)
  have sel: "rosterFile example_state = Some (File ''roster.csv'')
      \<and> activitiesFile example_state = Some (File ''activities.csv'')
      \<and> skillsFile example_state = Some (File ''skills.csv'')"
    and form: "roster example_form = Some (File ''roster.csv'')
      \<and> activities example_form = Some (File ''activities.csv'')
      \<and> skill_library example_form = Some (File ''skills.csv'')"
    by (simp_all add: example_state_def example_form_def)
  have idle: "example_state\<lparr>loading := False\<rparr> = example_state"
    by (simp add: example_state_def)
  have d500: "decimal 500 = ''500''"
    by (simp add: decimal.simps digit_char_def)
  from failed failed_upload_keeps_data
    [where outcome = ?bad and s = "example_state\<lparr>loading := True\<rparr>" and w = quiet_browser]
  have resume: "fst (handleUpload_resume ?bad (example_state\<lparr>loading := True\<rparr>, quiet_browser))
      = example_state"
    by (simp add: example_state_def)
  have run: "handleUpload ?server (example_state, quiet_browser)
      = (example_state,
         \<lparr>alerts = [''Upload failed! Check console for details.''],
          console_error = [[Text ''Upload failed:'',
                            Thrown (Error ''Server responded with status 500'')]],
          requests = [dashboard_request (File ''roster.csv'') (File ''activities.csv'')
                        (File ''skills.csv'')]\<rparr>)"
    by (simp add: handleUpload_def handleUpload_begin_def handleUpload_resume_def Let_def
        example_state_def quiet_browser_def dashboard_try_def ok_def d500)
  from failed form failed_upload_keeps_data [where r = "File ''roster.csv''"
      and a = "File ''activities.csv''" and k = "File ''skills.csv''"
      and server = ?server and w = quiet_browser and e = example_form and u = ?u]
  have kept: "dashboardData (fst (CSVUploader_handleUpload ?server example_form
      (?u, quiet_browser))) = Some example_result"
    by simp
  have replaced: "data (fst (handleUpload ?good (example_state\<lparr>data := None\<rparr>, quiet_browser)))
      = Some example_result"
    by (simp add: handleUpload_def handleUpload_begin_def handleUpload_resume_def Let_def
        example_state_def dashboard_try_def ok_def)
  then have "data (fst (handleUpload ?good (example_state\<lparr>data := None\<rparr>, quiet_browser)))
      \<noteq> data (example_state\<lparr>data := None\<rparr>)"
    by simp
  with failed_upload_keeps_data
    [where s = "example_state\<lparr>data := None\<rparr>" and server = ?good and w = quiet_browser]
  have "\<exists>status. ok status" by blast
  with failed resume run kept replaced show ?thesis by simp
qed

text \<open>
  Claim C7. When one of the three files is not selected, the handler shows its alert and
  does nothing else: the state is unchanged, and so are the requests issued and the
  console. With all three selected it issues exactly one request. So a request is issued
  only when all three files are selected. This holds of the dashboard's handler and of the
  uploader form.
\<close>

theorem missing_file_blocks_upload:
  "(rosterFile s = None \<or> activitiesFile s = None \<or> skillsFile s = None \<longrightarrow>
      handleUpload server (s, w)
        = (s, w\<lparr>alerts := alerts w @ [''Please select all three files!'']\<rparr>)
      \<and> requests (snd (handleUpload server (s, w))) = requests w)
   \<and> (roster e = None \<or> activities e = None \<or> skill_library e = None \<longrightarrow>
      CSVUploader_handleUpload server e (u, w)
        = (u, w\<lparr>alerts := alerts w @ [''All files required!'']\<rparr>)
      \<and> requests (snd (CSVUploader_handleUpload server e (u, w))) = requests w)
   \<and> (rosterFile s = Some r \<and> activitiesFile s = Some a \<and> skillsFile s = Some k \<longrightarrow>
      requests (snd (handleUpload server (s, w))) = requests w @ [dashboard_request r a k])
   \<and> (roster e = Some r \<and> activities e = Some a \<and> skill_library e = Some k \<longrightarrow>
      requests (snd (CSVUploader_handleUpload server e (u, w)))
        = requests w @ [uploadCSV_request r a k])
   \<and> (requests (snd (handleUpload server (s, w))) \<noteq> requests w \<longrightarrow>
      rosterFile s \<noteq> None \<and> activitiesFile s \<noteq> None \<and> skillsFile s \<noteq> None)
   \<and> (requests (snd (CSVUploader_handleUpload server e (u, w))) \<noteq> requests w \<longrightarrow>
      roster e \<noteq> None \<and> activities e \<noteq> None \<and> skill_library e \<noteq> None)"
proof -
  have dash_missing: "rosterFile s = None \<or> activitiesFile s = None \<or> skillsFile s = None \<longrightarrow>
      handleUpload server (s, w)
        = (s, w\<lparr>alerts := alerts w @ [''Please select all three files!'']\<rparr>)
      \<and> requests (snd (handleUpload server (s, w))) = requests w"
    by (simp add: handleUpload_missing)
  have form_missing: "roster e = None \<or> activities e = None \<or> skill_library e = None \<longrightarrow>
      CSVUploader_handleUpload server e (u, w)
        = (u, w\<lparr>alerts := alerts w @ [''All files required!'']\<rparr>)
      \<and> requests (snd (CSVUploader_handleUpload server e (u, w))) = requests w"
    by (simp add: CSVUploader_missing)
  have dash_sel: "rosterFile s = Some r \<and> activitiesFile s = Some a \<and> skillsFile s = Some k \<longrightarrow>
      requests (snd (handleUpload server (s, w))) = requests w @ [dashboard_request r a k]"
    by (simp add: handleUpload_selected split: sum.splits)
  have form_sel: "roster e = Some r \<and> activities e = Some a \<and> skill_library e = Some k \<longrightarrow>
      requests (snd (CSVUploader_handleUpload server e (u, w)))
        = requests w @ [uploadCSV_request r a k]"
    by (simp add: CSVUploader_selected split: sum.splits)
  have dash_only: "requests (snd (handleUpload server (s, w))) \<noteq> requests w \<longrightarrow>
      rosterFile s \<noteq> None \<and> activitiesFile s \<noteq> None \<and> skillsFile s \<noteq> None"
    using dash_missing by auto
  have form_only: "requests (snd (CSVUploader_handleUpload server e (u, w))) \<noteq> requests w \<longrightarrow>
      roster e \<noteq> None \<and> activities e \<noteq> None \<and> skill_library e \<noteq> None"
    using form_missing by auto
  show ?thesis
    by (intro conjI) (fact dash_missing form_missing dash_sel form_sel dash_only form_only)+
qed

theorem missing_file_blocks_upload_witness:
  "handleUpload (\<lambda>req. Response 200 (Parsed example_result))
      (example_state\<lparr>skillsFile := None\<rparr>, quiet_browser)
     = (example_state\<lparr>skillsFile := None\<rparr>,
        \<lparr>alerts = [''Please select all three files!''], console_error = [], requests = []\<rparr>)
   \<and> CSVUploader_handleUpload (\<lambda>req. Response 200 (Parsed example_result))
      (example_form\<lparr>activities := None\<rparr>)
      (\<lparr>uploader_loading = False, dashboardData = None\<rparr>, quiet_browser)
     = (\<lparr>uploader_loading = False, dashboardData = None\<rparr>,
        \<lparr>alerts = [''All files required!''], console_error = [], requests = []\<rparr>)
   \<and> requests (snd (handleUpload (\<lambda>req. Response 200 (Parsed example_result))
      (example_state, quiet_browser)))
     = [dashboard_request (File ''roster.csv'') (File ''activities.csv'') (File ''skills.csv'')]"
proof -
  let ?server = "\<lambda>req :: request. Response 200 (Parsed example_result)"
  let ?s = "example_state\<lparr>skillsFile := None\<rparr>"
  let ?e = "example_form\<lparr>activities := None\<rparr>"
  let ?u = "\<lparr>uploader_loading = False, dashboardData = None\<rparr>"
  have m: "rosterFile ?s = None \<or> activitiesFile ?s = None \<or> skillsFile ?s = None"
    and n: "roster ?e = None \<or> activities ?e = None \<or> skill_library ?e = None"
    by simp_all
  have sel: "rosterFile example_state = Some (File ''roster.csv'')
      \<and> activitiesFile example_state = Some (File ''activities.csv'')
      \<and> skillsFile example_state = Some (File ''skills.csv'')"
    by (simp add: example_state_def)
  from m n missing_file_blocks_upload
    [where s = ?s and server = ?server and w = quiet_browser and e = ?e and u = ?u]
  have "handleUpload ?server (?s, quiet_browser)
      = (?s, quiet_browser\<lparr>alerts := alerts quiet_browser @ [''Please select all three files!'']\<rparr>)
    \<and> CSVUploader_handleUpload ?server ?e (?u, quiet_browser)
      = (?u, quiet_browser\<lparr>alerts := alerts quiet_browser @ [''All files required!'']\<rparr>)"
    by blast
  moreover from sel
    missing_file_blocks_upload [where s = example_state and r = "File ''roster.csv''"
      and a = "File ''activities.csv''" and k = "File ''skills.csv''"
      and server = ?server and w = quiet_browser]
  have "requests (snd (handleUpload ?server (example_state, quiet_browser)))
     = requests quiet_browser @
       [dashboard_request (File ''roster.csv'') (File ''activities.csv'') (File ''skills.csv'')]"
    by blast
  ultimately show ?thesis by (simp add: quiet_browser_def)
qed


text \<open>
  Claim C8, as amended. \<^verbatim>\<open>uploadCSV\<close> issues exactly one request: a POST to the fixed
  backend address whose form data has exactly the parts \<^verbatim>\<open>roster\<close>,
  \<^verbatim>\<open>activities\<close> and \<^verbatim>\<open>skill_library\<close> (the dashboard's own request names the third
  part \<^verbatim>\<open>skills\<close>). With a success status it returns the parsed body as it is. It throws
  exactly when the upload fails: for a status that is not a success, the same
  \<^verbatim>\<open>Error("Failed to upload CSVs")\<close> whatever the status and the body; for a rejected
  fetch or a body that does not parse, the error that the platform raised, passed on
  unchanged. The dashboard's handler answers every failure with the same alert.
\<close>

theorem uploadCSV_contract:
  "fst (uploadCSV server r a k)
     = [\<lparr>url = ''https://crepid-deployable.onrender.com/api/upload-csv'',
         http_method = ''POST'',
         form_data = [(''roster'', r), (''activities'', a), (''skill_library'', k)]\<rparr>]
   \<and> dashboard_request r a k
     = \<lparr>url = ''https://crepid-deployable.onrender.com/api/upload-csv'',
         http_method = ''POST'',
         form_data = [(''roster'', r), (''activities'', a), (''skills'', k)]\<rparr>
   \<and> snd (uploadCSV server r a k) = uploadCSV_result (server (uploadCSV_request r a k))
   \<and> (ok status \<longrightarrow> uploadCSV_result (Response status (Parsed d)) = Inr d)
   \<and> (\<not> ok status \<longrightarrow>
        uploadCSV_result (Response status json) = Inl (Error ''Failed to upload CSVs''))
   \<and> uploadCSV_result (Rejected err) = Inl err
   \<and> (ok status \<longrightarrow> uploadCSV_result (Response status (Unparsable err)) = Inl err)
   \<and> upload_failed outcome = (\<exists>thrown. uploadCSV_result outcome = Inl thrown)
   \<and> (upload_failed (server (dashboard_request r a k))
        \<and> rosterFile s = Some r \<and> activitiesFile s = Some a \<and> skillsFile s = Some k \<longrightarrow>
        alerts (snd (handleUpload server (s, w)))
          = alerts w @ [''Upload failed! Check console for details.''])"
proof -
  have req: "fst (uploadCSV server r a k)
     = [\<lparr>url = ''https://crepid-deployable.onrender.com/api/upload-csv'',
         http_method = ''POST'',
         form_data = [(''roster'', r), (''activities'', a), (''skill_library'', k)]\<rparr>]"
    by (simp add: uploadCSV_def uploadCSV_request_def backend_url_def Let_def)
  have dreq: "dashboard_request r a k
     = \<lparr>url = ''https://crepid-deployable.onrender.com/api/upload-csv'',
         http_method = ''POST'',
         form_data = [(''roster'', r), (''activities'', a), (''skills'', k)]\<rparr>"
    by (simp add: dashboard_request_def backend_url_def)
  have res: "snd (uploadCSV server r a k) = uploadCSV_result (server (uploadCSV_request r a k))"
    by (simp add: uploadCSV_def Let_def)
  have cases: "(ok status \<longrightarrow> uploadCSV_result (Response status (Parsed d)) = Inr d)
   \<and> (\<not> ok status \<longrightarrow>
        uploadCSV_result (Response status json) = Inl (Error ''Failed to upload CSVs''))
   \<and> uploadCSV_result (Rejected err) = Inl err
   \<and> (ok status \<longrightarrow> uploadCSV_result (Response status (Unparsable err)) = Inl err)"
    by (simp add: uploadCSV_result_def)
  have notice: "upload_failed (server (dashboard_request r a k))
        \<and> rosterFile s = Some r \<and> activitiesFile s = Some a \<and> skillsFile s = Some k \<longrightarrow>
        alerts (snd (handleUpload server (s, w)))
          = alerts w @ [''Upload failed! Check console for details.'']"
  proof (intro impI, elim conjE)
    assume sel: "rosterFile s = Some r" "activitiesFile s = Some a" "skillsFile s = Some k"
      and "upload_failed (server (dashboard_request r a k))"
    then obtain thrown where "dashboard_try (server (dashboard_request r a k)) = Inl thrown"
      using dashboard_try_failed by blast
    then show "alerts (snd (handleUpload server (s, w)))
          = alerts w @ [''Upload failed! Check console for details.'']"
      by (simp add: handleUpload_selected [OF sel])
  qed
  from req dreq res cases notice uploadCSV_result_failed [of outcome]
  show ?thesis by (intro conjI) simp_all
qed

theorem uploadCSV_contract_witness:
  "ok 200 \<and> \<not> ok 500
   \<and> uploadCSV (\<lambda>req. Response 200 (Parsed example_result))
       (File ''roster.csv'') (File ''activities.csv'') (File ''skills.csv'')
     = ([\<lparr>url = ''https://crepid-deployable.onrender.com/api/upload-csv'',
          http_method = ''POST'',
          form_data = [(''roster'', File ''roster.csv''), (''activities'', File ''activities.csv''),
                       (''skill_library'', File ''skills.csv'')]\<rparr>],
        Inr example_result)
   \<and> uploadCSV_result (Response 500 (Parsed example_result))
     = Inl (Error ''Failed to upload CSVs'')
   \<and> uploadCSV_result (Response 200 (Unparsable (SyntaxError ''Unexpected end of JSON input'')))
     = Inl (SyntaxError ''Unexpected end of JSON input'')
   \<and> alerts (snd (handleUpload (\<lambda>req. Rejected (TypeError ''Failed to fetch''))
        (example_state, quiet_browser)))
     = [''Upload failed! Check console for details.'']"
proof -
  let ?server = "\<lambda>req :: request. Response 200 (Parsed example_result)"
  let ?down = "\<lambda>req :: request. Rejected (TypeError ''Failed to fetch'')"
  have a: "ok 200" and b: "\<not> ok 500" by (simp_all add: ok_def)
  note c = uploadCSV_contract [where server = ?server and r = "File ''roster.csv''"
      and a = "File ''activities.csv''" and k = "File ''skills.csv''" and status = 200
      and d = example_result and err = "SyntaxError ''Unexpected end of JSON input''"]
  note e = uploadCSV_contract [where status = 500 and json = "Parsed example_result"]
  from a c have "fst (uploadCSV ?server (File ''roster.csv'') (File ''activities.csv'')
        (File ''skills.csv''))
     = [\<lparr>url = ''https://crepid-deployable.onrender.com/api/upload-csv'',
          http_method = ''POST'',
          form_data = [(''roster'', File ''roster.csv''), (''activities'', File ''activities.csv''),
                       (''skill_library'', File ''skills.csv'')]\<rparr>]
    \<and> snd (uploadCSV ?server (File ''roster.csv'') (File ''activities.csv'')
        (File ''skills.csv'')) = Inr example_result
    \<and> uploadCSV_result (Response 200 (Unparsable (SyntaxError ''Unexpected end of JSON input'')))
     = Inl (SyntaxError ''Unexpected end of JSON input'')"
    by simp
  moreover from b e have "uploadCSV_result (Response 500 (Parsed example_result))
     = Inl (Error ''Failed to upload CSVs'')"
    by simp
  moreover have "upload_failed (?down (dashboard_request (File ''roster.csv'')
        (File ''activities.csv'') (File ''skills.csv'')))
      \<and> rosterFile example_state = Some (File ''roster.csv'')
      \<and> activitiesFile example_state = Some (File ''activities.csv'')
      \<and> skillsFile example_state = Some (File ''skills.csv'')"
    by (simp add: upload_failed_def example_state_def)
  with uploadCSV_contract [where server = ?down and r = "File ''roster.csv''"
      and a = "File ''activities.csv''" and k = "File ''skills.csv''"
      and s = example_state and w = quiet_browser]
  have "alerts (snd (handleUpload ?down (example_state, quiet_browser)))
     = alerts quiet_browser @ [''Upload failed! Check console for details.'']"
    by blast
  ultimately show ?thesis using a b by (simp add: prod_eq_iff quiet_browser_def)
qed


text \<open>
  Claim C8 as stated fails: a status 500 and a rejected fetch are both failed uploads, and
  \<^verbatim>\<open>uploadCSV\<close> throws a different error for each, as it does for a body that does not
  parse; and the request the dashboard's handler builds does not have a part named
  \<^verbatim>\<open>skill_library\<close>.
\<close>

theorem uploadCSV_errors_differ_counterexample:
  "upload_failed (Response 500 (Unparsable (SyntaxError ''Unexpected end of JSON input'')))
   \<and> upload_failed (Rejected (TypeError ''Failed to fetch''))
   \<and> upload_failed (Response 200 (Unparsable (SyntaxError ''Unexpected end of JSON input'')))
   \<and> uploadCSV_result (Response 500 (Unparsable (SyntaxError ''Unexpected end of JSON input'')))
       = Inl (Error ''Failed to upload CSVs'')
   \<and> uploadCSV_result (Rejected (TypeError ''Failed to fetch''))
       = Inl (TypeError ''Failed to fetch'')
   \<and> uploadCSV_result (Response 200 (Unparsable (SyntaxError ''Unexpected end of JSON input'')))
       = Inl (SyntaxError ''Unexpected end of JSON input'')
   \<and> uploadCSV_result (Response 500 (Unparsable (SyntaxError ''Unexpected end of JSON input'')))
       \<noteq> uploadCSV_result (Rejected (TypeError ''Failed to fetch''))
   \<and> map fst (form_data (dashboard_request (File ''roster.csv'') (File ''activities.csv'')
         (File ''skills.csv'')))
       \<noteq> [''roster'', ''activities'', ''skill_library'']"
  by (simp add: upload_failed_def uploadCSV_result_def ok_def dashboard_request_def)


section \<open>Properties of the FAQ accordion\<close>

lemma expanded_card:
  "expanded \<lparr>card_question = q, chevron_up = b, card_answer = a\<rparr> = (a \<noteq> None)"
  by (simp add: expanded_def)

lemma faq_cards_length: "length (faq_cards index fs openIndex) = length fs"
  by (induction fs arbitrary: index) simp_all

lemma faq_cards_nth:
  "i < length fs \<Longrightarrow>
   expanded (faq_cards index fs openIndex ! i) = (openIndex = Some (index + i))"
proof (induction fs arbitrary: index i)
  case Nil
  then show ?case by simp
next
  case (Cons f fs)
  show ?case
  proof (cases i)
    case 0
    then show ?thesis by (simp add: expanded_card)
  next
    case (Suc j)
    with Cons.prems have "j < length fs" by simp
    from Cons.IH [OF this, of "Suc index"] Suc show ?thesis by simp
  qed
qed

lemma faq_cards_closed: "filter expanded (faq_cards index fs None) = []"
  by (induction fs arbitrary: index) (simp_all add: expanded_card)

lemma faq_cards_passed:
  "k < index \<Longrightarrow> filter expanded (faq_cards index fs (Some k)) = []"
  by (induction fs arbitrary: index) (simp_all add: expanded_card)

lemma faq_cards_at_most_one:
  "length (filter expanded (faq_cards index fs openIndex)) \<le> 1"
proof (cases openIndex)
  case None
  then show ?thesis by (simp add: faq_cards_closed)
next
  case (Some k)
  have "length (filter expanded (faq_cards index fs (Some k))) \<le> 1"
  proof (induction fs arbitrary: index)
    case Nil
    show ?case by simp
  next
    case (Cons f fs)
    show ?case
    proof (cases "k = index")
      case True
      then have "filter expanded (faq_cards (Suc index) fs (Some k)) = []"
        by (simp add: faq_cards_passed)
      with True show ?thesis by (simp add: expanded_card)
    next
      case False
      with Cons.IH [of "Suc index"] show ?thesis by (simp add: expanded_card)
    qed
  qed
  with Some show ?thesis by simp
qed

text \<open>
  Claim C9. The accordion's state is one nullable index, \<^verbatim>\<open>null\<close> at the start, when
  every card is collapsed. Whatever headers were clicked, at most one card is expanded,
  and card \<open>i\<close> is expanded exactly when the state is \<open>Some i\<close>. Clicking the header of
  the open card collapses it (no card is expanded afterwards); clicking the header of
  another card \<open>j\<close> opens \<open>j\<close> and leaves the card that was open collapsed.
\<close>

theorem faq_single_open:
  "openIndex_initial = None
   \<and> filter expanded (FAQSection faqs openIndex_initial) = []
   \<and> length (filter expanded (FAQSection faqs (after_clicks clicks))) \<le> 1
   \<and> (\<forall>i < length faqs. expanded (FAQSection faqs openIndex ! i) = (openIndex = Some i))
   \<and> toggleFAQ (Some i) i = None
   \<and> filter expanded (FAQSection faqs (toggleFAQ (Some i) i)) = []
   \<and> (i \<noteq> j \<longrightarrow> toggleFAQ (Some i) j = Some j)
   \<and> (i \<noteq> j \<and> i < length faqs \<and> j < length faqs \<longrightarrow>
        expanded (FAQSection faqs (toggleFAQ (Some i) j) ! j)
        \<and> \<not> expanded (FAQSection faqs (toggleFAQ (Some i) j) ! i))
   \<and> toggleFAQ None j = Some j"
proof -
  have one: "length (filter expanded (FAQSection faqs (after_clicks clicks))) \<le> 1"
    unfolding FAQSection_def by (rule faq_cards_at_most_one)
  have rest: "openIndex_initial = None
   \<and> filter expanded (FAQSection faqs openIndex_initial) = []
   \<and> (\<forall>i < length faqs. expanded (FAQSection faqs openIndex ! i) = (openIndex = Some i))
   \<and> toggleFAQ (Some i) i = None
   \<and> filter expanded (FAQSection faqs (toggleFAQ (Some i) i)) = []
   \<and> (i \<noteq> j \<longrightarrow> toggleFAQ (Some i) j = Some j)
   \<and> (i \<noteq> j \<and> i < length faqs \<and> j < length faqs \<longrightarrow>
        expanded (FAQSection faqs (toggleFAQ (Some i) j) ! j)
        \<and> \<not> expanded (FAQSection faqs (toggleFAQ (Some i) j) ! i))
   \<and> toggleFAQ None j = Some j"
    by (simp add: openIndex_initial_def FAQSection_def toggleFAQ_def
        faq_cards_closed faq_cards_nth)
  from one rest show ?thesis by blast
qed

theorem faq_single_open_witness:
  "length (filter expanded (FAQSection
      [\<lparr>question = ''What is WPI?'', answer = ''A ratio''\<rparr>,
       \<lparr>question = ''What does TIm mean?'', answer = ''A metric''\<rparr>]
      (after_clicks [0, 1]))) \<le> 1
   \<and> (0::nat) \<noteq> 1
   \<and> (0::nat) < length [\<lparr>question = ''What is WPI?'', answer = ''A ratio''\<rparr>,
       \<lparr>question = ''What does TIm mean?'', answer = ''A metric''\<rparr>]
   \<and> toggleFAQ (Some 0) 1 = Some 1
   \<and> expanded (FAQSection
      [\<lparr>question = ''What is WPI?'', answer = ''A ratio''\<rparr>,
       \<lparr>question = ''What does TIm mean?'', answer = ''A metric''\<rparr>]
      (toggleFAQ (Some 0) 1) ! 1)
   \<and> \<not> expanded (FAQSection
      [\<lparr>question = ''What is WPI?'', answer = ''A ratio''\<rparr>,
       \<lparr>question = ''What does TIm mean?'', answer = ''A metric''\<rparr>]
      (toggleFAQ (Some 0) 1) ! 0)"
proof -
  have h: "(0::nat) \<noteq> 1
     \<and> (0::nat) < length [\<lparr>question = ''What is WPI?'', answer = ''A ratio''\<rparr>,
       \<lparr>question = ''What does TIm mean?'', answer = ''A metric''\<rparr>]
     \<and> (1::nat) < length [\<lparr>question = ''What is WPI?'', answer = ''A ratio''\<rparr>,
       \<lparr>question = ''What does TIm mean?'', answer = ''A metric''\<rparr>]"
    by simp
  from h faq_single_open [of "[\<lparr>question = ''What is WPI?'', answer = ''A ratio''\<rparr>,
       \<lparr>question = ''What does TIm mean?'', answer = ''A metric''\<rparr>]" "[0, 1]" None 0 1]
  show ?thesis by blast
qed

end
